theory Spec2Isabelle
  imports Complex_Main "HOL-Library.Sublist"
begin

section \<open>Python values and built-ins used by the MySQL check\<close>

text \<open>
  The check is Python 3 (\<open>long = int\<close>). A \<open>str\<close> is modelled as a \<open>string\<close> whose
  characters are the code points U+0000 .. U+00FF; integers are unbounded (\<open>int\<close>).
  Every exception the modelled code can raise is a value of \<open>py_error\<close>, and a
  computation that may raise returns \<open>py_error + 'a\<close> with \<open>Inl\<close> for the exception.
\<close>

datatype py_error =
    IndexError | ValueError | AttributeError | TypeError
  | ZeroDivisionError | OverflowError | KeyError

definition bindE :: "py_error + 'a \<Rightarrow> ('a \<Rightarrow> py_error + 'b) \<Rightarrow> py_error + 'b" where
  "bindE m f = (case m of Inl e \<Rightarrow> Inl e | Inr v \<Rightarrow> f v)"

definition thenE :: "('a \<Rightarrow> py_error + 'b) \<Rightarrow> ('b \<Rightarrow> py_error + 'c) \<Rightarrow> 'a \<Rightarrow> py_error + 'c" where
  "thenE f g = (\<lambda>x. bindE (f x) g)"

text \<open>\<open>str.isspace\<close> on one character: the set \<open>str.strip()\<close> removes.\<close>

definition py_isspace :: "char \<Rightarrow> bool" where
  "py_isspace c = (let n = (of_char c :: nat)
     in (9 \<le> n \<and> n \<le> 13) \<or> (28 \<le> n \<and> n \<le> 32) \<or> n = 133 \<or> n = 160)"

text \<open>The white space \<open>int()\<close> skips around a literal (it keeps U+001C .. U+001F).\<close>

definition int_isspace :: "char \<Rightarrow> bool" where
  "int_isspace c = (let n = (of_char c :: nat)
     in (9 \<le> n \<and> n \<le> 13) \<or> n = 32 \<or> n = 133 \<or> n = 160)"

definition is_dec :: "char \<Rightarrow> bool" where
  "is_dec c = (let n = (of_char c :: nat) in 48 \<le> n \<and> n \<le> 57)"

definition dec_val :: "char \<Rightarrow> nat" where
  "dec_val c = of_char c - 48"

text \<open>\<open>str.isdigit\<close>: true of a non-empty string of digits; the superscripts
  U+00B2, U+00B3 and U+00B9 count as digits there (and are no literal for \<open>int()\<close>).\<close>

definition is_digit_char :: "char \<Rightarrow> bool" where
  "is_digit_char c = (let n = (of_char c :: nat)
     in (48 \<le> n \<and> n \<le> 57) \<or> n = 178 \<or> n = 179 \<or> n = 185)"

definition py_isdigit :: "string \<Rightarrow> bool" where
  "py_isdigit s = (s \<noteq> [] \<and> list_all is_digit_char s)"

definition strip_where :: "(char \<Rightarrow> bool) \<Rightarrow> string \<Rightarrow> string" where
  "strip_where P s = rev (dropWhile P (rev (dropWhile P s)))"

definition py_strip :: "string \<Rightarrow> string" where
  "py_strip s = strip_where py_isspace s"

text \<open>\<open>s.strip(c)\<close> for a one-character argument.\<close>

definition strip_char :: "char \<Rightarrow> string \<Rightarrow> string" where
  "strip_char c s = strip_where (\<lambda>x. x = c) s"

definition py_lower_char :: "char \<Rightarrow> char" where
  "py_lower_char c = (let n = (of_char c :: nat)
     in if (65 \<le> n \<and> n \<le> 90) \<or> (192 \<le> n \<and> n \<le> 222 \<and> n \<noteq> 215)
        then char_of (n + 32) else c)"

definition py_lower :: "string \<Rightarrow> string" where
  "py_lower s = map py_lower_char s"

definition py_startswith :: "string \<Rightarrow> string \<Rightarrow> bool" where
  "py_startswith s p = prefix p s"

text \<open>\<open>s.find(sub)\<close>: the least index where \<open>sub\<close> occurs, or -1.\<close>

fun find_from :: "string \<Rightarrow> string \<Rightarrow> int \<Rightarrow> int" where
  "find_from sub [] i = (if sub = [] then i else - 1)"
| "find_from sub (c # cs) i = (if prefix sub (c # cs) then i else find_from sub cs (i + 1))"

definition py_find :: "string \<Rightarrow> string \<Rightarrow> int" where
  "py_find s sub = find_from sub s 0"

text \<open>\<open>s.split(c)\<close> for a one-character separator: never an empty list.\<close>

fun split_on :: "char \<Rightarrow> string \<Rightarrow> string \<Rightarrow> string list" where
  "split_on sep cur [] = [rev cur]"
| "split_on sep cur (c # cs) =
     (if c = sep then rev cur # split_on sep [] cs else split_on sep (c # cur) cs)"

definition py_split :: "char \<Rightarrow> string \<Rightarrow> string list" where
  "py_split sep s = split_on sep [] s"

text \<open>\<open>re.split(" +", s)\<close>: a maximal run of blanks is one separator.\<close>

fun split_blanks :: "string \<Rightarrow> string \<Rightarrow> string list" where
  "split_blanks cur [] = [rev cur]"
| "split_blanks cur (c # cs) =
     (if c = CHR '' '' then
        (case cs of
           d # ds \<Rightarrow> if d = CHR '' '' then split_blanks cur (d # ds)
                     else rev cur # split_blanks [] (d # ds)
         | [] \<Rightarrow> [rev cur, []])
      else split_blanks (c # cur) cs)"

definition re_split_blanks :: "string \<Rightarrow> string list" where
  "re_split_blanks s = split_blanks [] s"

text \<open>\<open>str.splitlines()\<close>: the line boundaries below U+0100, with CR LF as one.\<close>

definition is_linebreak :: "char \<Rightarrow> bool" where
  "is_linebreak c = (let n = (of_char c :: nat)
     in (10 \<le> n \<and> n \<le> 13) \<or> (28 \<le> n \<and> n \<le> 30) \<or> n = 133)"

fun split_lines :: "string \<Rightarrow> string \<Rightarrow> string list" where
  "split_lines cur [] = (if cur = [] then [] else [rev cur])"
| "split_lines cur (c # cs) =
     (if is_linebreak c then
        (case cs of
           d # ds \<Rightarrow> if c = CHR 0x0D \<and> d = CHR 0x0A then rev cur # split_lines [] ds
                     else rev cur # split_lines [] (d # ds)
         | [] \<Rightarrow> [rev cur])
      else split_lines (c # cur) cs)"

definition py_splitlines :: "string \<Rightarrow> string list" where
  "py_splitlines s = split_lines [] s"

text \<open>
  \<open>int(s)\<close> in base 10: white space around, an optional sign, then decimal digits
  that single underscores may separate. Anything else raises ValueError.
\<close>

fun digit_rest :: "nat \<Rightarrow> string \<Rightarrow> nat option" where
  "digit_rest acc [] = Some acc"
| "digit_rest acc [c] = (if is_dec c then Some (acc * 10 + dec_val c) else None)"
| "digit_rest acc (c # d # ds) =
     (if is_dec c then digit_rest (acc * 10 + dec_val c) (d # ds)
      else if c = CHR ''_'' \<and> is_dec d then digit_rest (acc * 10 + dec_val d) ds
      else None)"

definition digitpart :: "string \<Rightarrow> nat option" where
  "digitpart s = (case s of [] \<Rightarrow> None
     | c # cs \<Rightarrow> if is_dec c then digit_rest (dec_val c) cs else None)"

definition signed_body :: "string \<Rightarrow> bool \<times> string" where
  "signed_body s =
     (case strip_where int_isspace s of
        [] \<Rightarrow> (False, [])
      | c # cs \<Rightarrow>
          if c = CHR ''-'' then (True, cs)
          else if c = CHR ''+'' then (False, cs)
          else (False, c # cs))"

definition py_int :: "string \<Rightarrow> py_error + int" where
  "py_int s =
     (case digitpart (snd (signed_body s)) of
        None \<Rightarrow> Inl ValueError
      | Some n \<Rightarrow> Inr (if fst (signed_body s) then - int n else int n))"

text \<open>\<open>str(n)\<close> for an integer.\<close>

definition digit_char :: "nat \<Rightarrow> char" where
  "digit_char d = ''0123456789'' ! d"

fun nat_digits :: "nat \<Rightarrow> string" where
  "nat_digits n = (if n < 10 then [digit_char n]
                   else nat_digits (n div 10) @ [digit_char (n mod 10)])"

definition py_str_int :: "int \<Rightarrow> string" where
  "py_str_int i = (if i < 0 then CHR ''-'' # nat_digits (nat (- i)) else nat_digits (nat i))"

text \<open>\<open>xs[i]\<close> for a non-negative constant index.\<close>

definition py_index :: "'a list \<Rightarrow> nat \<Rightarrow> py_error + 'a" where
  "py_index xs i = (if i < length xs then Inr (xs ! i) else Inl IndexError)"

text \<open>\<open>xs[i:j]\<close> for non-negative constant bounds.\<close>

definition py_slice :: "'a list \<Rightarrow> nat \<Rightarrow> nat \<Rightarrow> 'a list" where
  "py_slice xs i j = take (j - i) (drop i xs)"

section \<open>Server identity and the query-cache counters of the previous pass\<close>

text \<open>The fields \<open>_get_config\<close> stores on the check: \<open>port\<close> is \<open>int(...)\<close>, 0 when unset.\<close>

record conn_config =
  host :: string
  port :: int
  mysql_sock :: string
  defaults_file :: string

definition colon_join :: "string \<Rightarrow> string \<Rightarrow> string" where
  "colon_join a b = a @ '':'' @ b"

definition get_host_key :: "conn_config \<Rightarrow> string" where
  "get_host_key c =
     (if defaults_file c \<noteq> [] then defaults_file c
      else if mysql_sock c \<noteq> [] then colon_join (host c) (mysql_sock c)
      else if port c \<noteq> 0 then colon_join (host c) (py_str_int (port c))
      else host c)"

section \<open>Version information\<close>

record mysql_metadata =
  version :: string
  flavor :: string
  build :: string

text \<open>
  The loop of \<open>_get_metadata\<close> over the segments of \<open>SELECT VERSION()\<close>, with the pair
  (flavor, build) as its state. \<open>BUILDS\<close> is a table of the constants module, which
  is a parameter here.
\<close>

fun metadata_loop :: "string list \<Rightarrow> string list \<Rightarrow> string \<times> string \<Rightarrow> string \<times> string" where
  "metadata_loop BUILDS [] fb = fb"
| "metadata_loop BUILDS (data # rest) (fl, bd) =
     (let fl1 = (if data = ''MariaDB'' then ''MariaDB'' else fl);
          fl2 = (if data \<noteq> ''MariaDB'' \<and> fl1 = [] then ''MySQL'' else fl1);
          bd1 = (if data \<in> set BUILDS then data else bd)
      in metadata_loop BUILDS rest (fl2, bd1))"

definition get_metadata :: "string list \<Rightarrow> string \<Rightarrow> mysql_metadata" where
  "get_metadata BUILDS raw =
     (let parts = py_split (CHR ''-'') raw;
          fb = metadata_loop BUILDS parts ([], [])
      in \<lparr>version = (case parts of [] \<Rightarrow> [] | p # _ \<Rightarrow> p),
          flavor = fst fb,
          build = (if snd fb = [] then ''unspecified'' else snd fb)\<rparr>)"

text \<open>Python's order on triples, \<open>version >= compat_version\<close>.\<close>

definition triple_ge :: "int \<times> int \<times> int \<Rightarrow> int \<times> int \<times> int \<Rightarrow> bool" where
  "triple_ge v c =
     (case v of (a, b, p) \<Rightarrow> case c of (x, y, z) \<Rightarrow>
        a > x \<or> (a = x \<and> (b > y \<or> (b = y \<and> p \<ge> z))))"

text \<open>
  \<open>_version_compatible\<close>. The metadata is \<open>None\<close> until the first pass sets it:
  only then does the guarded \<open>split\<close> raise, and the answer is \<open>False\<close>. The third
  segment is read first, through \<open>re.match(r"([0-9]+)", ...)\<close>, whose \<open>group\<close> on a
  failed match raises AttributeError; then the first two through \<open>int\<close>.
\<close>

definition version_compatible :: "mysql_metadata option \<Rightarrow> int \<times> int \<times> int \<Rightarrow> py_error + bool" where
  "version_compatible md compat_version =
     (case md of
        None \<Rightarrow> Inr False
      | Some m \<Rightarrow>
          (let mysql_version = py_split (CHR ''.'') (version m) in
           bindE (py_index mysql_version 2) (\<lambda>seg.
             (let run = takeWhile is_dec seg in
              if run = [] then Inl AttributeError
              else bindE (py_int run) (\<lambda>patchlevel.
                   bindE (py_index mysql_version 0) (\<lambda>s0.
                   bindE (py_int s0) (\<lambda>major.
                   bindE (py_index mysql_version 1) (\<lambda>s1.
                   bindE (py_int s1) (\<lambda>minor.
                     Inr (triple_ge (major, minor, patchlevel) compat_version))))))))))"

section \<open>Replication health\<close>

datatype service_status = OK | WARNING | CRITICAL | UNKNOWN

text \<open>
  What the classifier reads, as the helpers of the collection module (parameters
  here) hand it over: \<open>collect_string\<close> and \<open>collect_scalar\<close> give \<open>None\<close> for a key
  that is absent, \<open>collect_type(.., dict)\<close> gives the per-channel dictionary or
  \<open>None\<close>, and \<open>results.get('Binlog_enabled', False)\<close> is taken by its truth value.
  \<open>Slaves_connected\<close> is a count, so the scalar is a whole number.
\<close>

record replication_input =
  slave_running :: "string option"
  binlog_running :: bool
  slaves :: "int option"
  slave_io_running :: "(string \<times> string) list option"
  slave_sql_running :: "(string \<times> string) list option"
  master_host :: "string option"

definition says :: "string \<Rightarrow> string \<Rightarrow> bool" where
  "says w v = (py_strip (py_lower v) = w)"

text \<open>
  \<open>if d: d = any(v.lower().strip() == 'yes' for v in itervalues(d))\<close>. An empty
  dictionary stays as it is: not \<open>None\<close>, and false wherever it is tested.
\<close>

definition any_yes :: "(string \<times> string) list option \<Rightarrow> bool option" where
  "any_yes d = (case d of None \<Rightarrow> None
     | Some kvs \<Rightarrow> Some (kvs \<noteq> [] \<and> list_ex (\<lambda>kv. says ''yes'' (snd kv)) kvs))"

definition truthy :: "bool option \<Rightarrow> bool" where
  "truthy b = (b = Some True)"

text \<open>\<open>_is_master\<close>: \<open>slaves > 0\<close> is evaluated first and raises TypeError on \<open>None\<close>.\<close>

definition is_master :: "int option \<Rightarrow> string option \<Rightarrow> py_error + bool" where
  "is_master n mh =
     (case n of None \<Rightarrow> Inl TypeError
      | Some k \<Rightarrow> Inr (k > 0 \<or> mh = None \<or> mh = Some []))"

definition threads_status :: "mysql_metadata option \<Rightarrow> replication_input \<Rightarrow> py_error + service_status" where
  "threads_status md r =
     (let io = any_yes (slave_io_running r); sql = any_yes (slave_sql_running r) in
      bindE (version_compatible md (5, 7, 0)) (\<lambda>v570.
        if v570 then
          Inr (if \<not> (io = None \<and> sql = None) then
                 (if truthy io \<and> truthy sql then OK
                  else if \<not> truthy io \<and> \<not> truthy sql then CRITICAL
                  else WARNING)
               else UNKNOWN)
        else
          (case slave_running r of
             None \<Rightarrow> Inl AttributeError
           | Some sr \<Rightarrow>
               Inr (if says ''off'' sr \<and> \<not> (io = None \<and> sql = None)
                       \<and> \<not> truthy io \<and> \<not> truthy sql
                    then CRITICAL else UNKNOWN))))"

definition replication_status :: "mysql_metadata option \<Rightarrow> replication_input \<Rightarrow> py_error + service_status" where
  "replication_status md r =
     bindE (threads_status md r) (\<lambda>st.
       if st = UNKNOWN then
         bindE (is_master (slaves r) (master_host r)) (\<lambda>master.
           if master then
             (case slaves r of
                None \<Rightarrow> Inl TypeError
              | Some k \<Rightarrow> Inr (if k > 0 \<and> binlog_running r then OK else WARNING))
           else
             (case slave_running r of
                None \<Rightarrow> Inr UNKNOWN
              | Some sr \<Rightarrow>
                  Inr (if sr = [] then UNKNOWN
                       else if says ''on'' sr then OK else CRITICAL)))
       else Inr st)"

text \<open>
  What is emitted under the name \<open>mysql.replication.slave_running\<close>: the gauge and
  the service check.
\<close>

definition slave_running_gauge :: "service_status \<Rightarrow> int" where
  "slave_running_gauge st = (if st = OK then 1 else 0)"

definition replication_report :: "mysql_metadata option \<Rightarrow> replication_input \<Rightarrow> py_error + int \<times> service_status" where
  "replication_report md r =
     bindE (replication_status md r) (\<lambda>st. Inr (slave_running_gauge st, st))"

section \<open>Python floats\<close>

text \<open>
  A \<open>float\<close> is an IEEE 754 binary64 number, modelled by its exact rational value,
  the two infinities and NaN; the sign of a zero is not kept (no operation used here
  tells the two zeros apart). Every operation rounds the exact result to the nearest
  representable number, ties to the even significand: \<open>round_double\<close>.
\<close>

datatype py_float = Finite rat | PosInf | NegInf | NaN

fun bitlen :: "nat \<Rightarrow> nat" where
  "bitlen n = (if n = 0 then 0 else Suc (bitlen (n div 2)))"

declare bitlen.simps [simp del]

definition pow2 :: "int \<Rightarrow> rat" where
  "pow2 k = (if 0 \<le> k then 2 ^ nat k else 1 / 2 ^ nat (- k))"

definition pow10 :: "int \<Rightarrow> rat" where
  "pow10 k = (if 0 \<le> k then 10 ^ nat k else 1 / 10 ^ nat (- k))"

text \<open>
  For \<open>q > 0\<close>: the exponent \<open>e\<close> with \<open>2 ^ e \<le> q < 2 ^ (e + 1)\<close>, read off the
  bit length of the integer part of \<open>q\<close> or, below 1, of its inverse.
\<close>

definition floor_log2 :: "rat \<Rightarrow> int" where
  "floor_log2 q =
     (if 1 \<le> q then int (bitlen (nat \<lfloor>q\<rfloor>)) - 1
      else - int (bitlen (nat (\<lceil>1 / q\<rceil> - 1))))"

definition round_half_even :: "rat \<Rightarrow> int" where
  "round_half_even q =
     (let f = \<lfloor>q\<rfloor>; r = q - of_int f
      in if r < 1 / 2 then f else if 1 / 2 < r then f + 1 else if even f then f else f + 1)"

text \<open>
  For \<open>q > 0\<close>: 53 significant bits, and below \<open>2 ^ (- 1022)\<close> the fixed spacing
  \<open>2 ^ (- 1074)\<close> of the subnormal numbers.
\<close>

definition round_pos :: "rat \<Rightarrow> rat" where
  "round_pos q =
     (let p = max (floor_log2 q - 52) (- 1074)
      in of_int (round_half_even (q / pow2 p)) * pow2 p)"

definition round_double :: "rat \<Rightarrow> py_float" where
  "round_double q =
     (if q = 0 then Finite 0
      else let v = round_pos \<bar>q\<bar> in
           if pow2 1024 \<le> v then (if q < 0 then NegInf else PosInf)
           else Finite (if q < 0 then - v else v))"

text \<open>An \<open>int\<close> operand of a float operation: too large a value raises OverflowError.\<close>

definition float_of_int :: "int \<Rightarrow> py_error + py_float" where
  "float_of_int n =
     (case round_double (of_int n) of Finite v \<Rightarrow> Inr (Finite v) | _ \<Rightarrow> Inl OverflowError)"

definition float_neg :: "py_float \<Rightarrow> py_float" where
  "float_neg x = (case x of Finite v \<Rightarrow> Finite (- v) | PosInf \<Rightarrow> NegInf
                  | NegInf \<Rightarrow> PosInf | NaN \<Rightarrow> NaN)"

definition is_negative :: "py_float \<Rightarrow> bool" where
  "is_negative x = (case x of Finite v \<Rightarrow> v < 0 | NegInf \<Rightarrow> True | _ \<Rightarrow> False)"

definition is_inf :: "py_float \<Rightarrow> bool" where
  "is_inf x = (x = PosInf \<or> x = NegInf)"

definition signed_inf :: "bool \<Rightarrow> py_float" where
  "signed_inf neg = (if neg then NegInf else PosInf)"

text \<open>\<open>x - y\<close>, \<open>x * y\<close> and \<open>x / y\<close> on floats; only the division raises.\<close>

definition float_sub :: "py_float \<Rightarrow> py_float \<Rightarrow> py_float" where
  "float_sub x y =
     (case (x, y) of
        (Finite a, Finite b) \<Rightarrow> round_double (a - b)
      | (NaN, _) \<Rightarrow> NaN
      | (_, NaN) \<Rightarrow> NaN
      | (Finite a, _) \<Rightarrow> float_neg y
      | (_, Finite b) \<Rightarrow> x
      | _ \<Rightarrow> if x = y then NaN else x)"

definition float_mul :: "py_float \<Rightarrow> py_float \<Rightarrow> py_float" where
  "float_mul x y =
     (case (x, y) of
        (Finite a, Finite b) \<Rightarrow> round_double (a * b)
      | (NaN, _) \<Rightarrow> NaN
      | (_, NaN) \<Rightarrow> NaN
      | _ \<Rightarrow> if x = Finite 0 \<or> y = Finite 0 then NaN
             else signed_inf (is_negative x \<noteq> is_negative y))"

definition float_div :: "py_float \<Rightarrow> py_float \<Rightarrow> py_error + py_float" where
  "float_div x y =
     (if y = Finite 0 then Inl ZeroDivisionError
      else Inr (case (x, y) of
        (Finite a, Finite b) \<Rightarrow> round_double (a / b)
      | (NaN, _) \<Rightarrow> NaN
      | (_, NaN) \<Rightarrow> NaN
      | (Finite a, _) \<Rightarrow> Finite 0
      | (_, Finite b) \<Rightarrow> signed_inf (is_negative x \<noteq> is_negative y)
      | _ \<Rightarrow> NaN))"

text \<open>\<open>int(x)\<close> of a float truncates towards zero.\<close>

definition py_trunc :: "py_float \<Rightarrow> py_error + int" where
  "py_trunc x =
     (case x of
        Finite v \<Rightarrow> Inr (if v < 0 then - \<lfloor>- v\<rfloor> else \<lfloor>v\<rfloor>)
      | NaN \<Rightarrow> Inl ValueError
      | _ \<Rightarrow> Inl OverflowError)"

text \<open>
  \<open>float(s)\<close>: white space around, an optional sign, then \<open>inf\<close>, \<open>infinity\<close> or
  \<open>nan\<close> in any case, or a decimal number with an optional exponent. The digit
  groups follow the rule of \<open>int\<close> for underscores. The value is rounded once.
\<close>

definition digit_count :: "string \<Rightarrow> nat" where
  "digit_count s = length (filter is_dec s)"

definition parse_exponent :: "string \<Rightarrow> int option" where
  "parse_exponent s =
     (case s of
        [] \<Rightarrow> None
      | c # cs \<Rightarrow>
          if c = CHR ''-'' then map_option (\<lambda>n. - int n) (digitpart cs)
          else if c = CHR ''+'' then map_option int (digitpart cs)
          else map_option int (digitpart s))"

definition parse_number :: "string \<Rightarrow> rat option" where
  "parse_number s =
     (let ip = takeWhile (\<lambda>c. c \<noteq> CHR ''.'') s;
          fp = drop 1 (dropWhile (\<lambda>c. c \<noteq> CHR ''.'') s)
      in if fp = [] then map_option of_nat (digitpart ip)
         else (case digitpart fp of
                 None \<Rightarrow> None
               | Some f \<Rightarrow>
                   if ip = [] then Some (of_nat f / 10 ^ digit_count fp)
                   else map_option (\<lambda>i. of_nat i + of_nat f / 10 ^ digit_count fp)
                          (digitpart ip)))"

definition is_exp_mark :: "char \<Rightarrow> bool" where
  "is_exp_mark c = (c = CHR ''e'' \<or> c = CHR ''E'')"

definition parse_abs_float :: "string \<Rightarrow> py_float option" where
  "parse_abs_float s =
     (if py_lower s = ''inf'' \<or> py_lower s = ''infinity'' then Some PosInf
      else if py_lower s = ''nan'' then Some NaN
      else
        (let m = takeWhile (\<lambda>c. \<not> is_exp_mark c) s;
             r = dropWhile (\<lambda>c. \<not> is_exp_mark c) s
         in case parse_number m of
              None \<Rightarrow> None
            | Some q \<Rightarrow>
                if r = [] then Some (round_double q)
                else map_option (\<lambda>k. round_double (q * pow10 k)) (parse_exponent (drop 1 r))))"

definition py_float_of_str :: "string \<Rightarrow> py_error + py_float" where
  "py_float_of_str s =
     (case parse_abs_float (snd (signed_body s)) of
        None \<Rightarrow> Inl ValueError
      | Some x \<Rightarrow> Inr (if fst (signed_body s) then float_neg x else x))"

section \<open>The parser of SHOW ENGINE INNODB STATUS\<close>

text \<open>
  The state of the scan in \<open>_get_stats_from_innodb_status\<close>: the counters
  (\<open>results\<close>, a \<open>defaultdict(int)\<close>), the two latches and the previous line. The
  lines that \<open>log.warning\<close> reports as unparseable are collected in \<open>warnings\<close>.
\<close>

record parse_state =
  results :: "string \<rightharpoonup> int"
  txn_seen :: bool
  prev_line :: string
  buffer_id :: int
  warnings :: "string list"

text \<open>Reading a \<open>defaultdict(int)\<close>: an absent key reads 0, and is stored as 0.\<close>

definition dd_value :: "(string \<rightharpoonup> int) \<Rightarrow> string \<Rightarrow> int" where
  "dd_value m k = (case m k of None \<Rightarrow> 0 | Some v \<Rightarrow> v)"

definition dd_touch :: "(string \<rightharpoonup> int) \<Rightarrow> string \<Rightarrow> (string \<rightharpoonup> int)" where
  "dd_touch m k = (case m k of None \<Rightarrow> m(k \<mapsto> 0) | Some v \<Rightarrow> m)"

definition put :: "string \<Rightarrow> int \<Rightarrow> parse_state \<Rightarrow> parse_state" where
  "put k v s = s\<lparr>results := (results s)(k \<mapsto> v)\<rparr>"

definition warn :: "string \<Rightarrow> parse_state \<Rightarrow> parse_state" where
  "warn line s = s\<lparr>warnings := warnings s @ [line]\<rparr>"

text \<open>\<open>long(row[i])\<close>: IndexError for a missing token, ValueError for a bad one.\<close>

definition long_at :: "string list \<Rightarrow> nat \<Rightarrow> py_error + int" where
  "long_at row i = bindE (py_index row i) py_int"

text \<open>\<open>long(float(row[i]))\<close>.\<close>

definition long_float_at :: "string list \<Rightarrow> nat \<Rightarrow> py_error + int" where
  "long_float_at row i = bindE (py_index row i) (\<lambda>t. bindE (py_float_of_str t) py_trunc)"

fun seqE :: "('a \<Rightarrow> py_error + 'a) list \<Rightarrow> 'a \<Rightarrow> py_error + 'a" where
  "seqE [] s = Inr s"
| "seqE (f # fs) s = bindE (f s) (seqE fs)"

text \<open>\<open>results[k] = long(row[i])\<close>, \<open>results[k] = v\<close>, \<open>results[k] += v\<close>,
  \<open>results[k] += long(row[i]) * c\<close> and \<open>results[k] += long(float(row[i])) * c\<close>.\<close>

definition assign_long :: "string \<Rightarrow> string list \<Rightarrow> nat \<Rightarrow> parse_state \<Rightarrow> py_error + parse_state" where
  "assign_long k row i s = bindE (long_at row i) (\<lambda>v. Inr (put k v s))"

definition assign_const :: "string \<Rightarrow> int \<Rightarrow> parse_state \<Rightarrow> py_error + parse_state" where
  "assign_const k v s = Inr (put k v s)"

definition add_const :: "string \<Rightarrow> int \<Rightarrow> parse_state \<Rightarrow> py_error + parse_state" where
  "add_const k v s = Inr (put k (dd_value (results s) k + v) s)"

definition add_long :: "string \<Rightarrow> string list \<Rightarrow> nat \<Rightarrow> int \<Rightarrow> parse_state \<Rightarrow> py_error + parse_state" where
  "add_long k row i c s =
     bindE (long_at row i) (\<lambda>v. Inr (put k (dd_value (results s) k + v * c) s))"

definition add_long_float :: "string \<Rightarrow> string list \<Rightarrow> nat \<Rightarrow> int \<Rightarrow> parse_state \<Rightarrow> py_error + parse_state" where
  "add_long_float k row i c s =
     bindE (long_float_at row i) (\<lambda>v. Inr (put k (dd_value (results s) k + v * c) s))"

text \<open>
  Each group of branches of the \<open>if\<close>/\<open>elif\<close> chain is a function that answers
  \<open>None\<close> when none of its tests holds, so that the next group is tried: the first
  test that holds decides, as in the source.
\<close>

definition semaphores :: "string \<Rightarrow> string list \<Rightarrow> parse_state \<Rightarrow> (py_error + parse_state) option" where
  "semaphores line row s =
     (if py_find line ''Mutex spin waits'' = 0 then
        Some (seqE [assign_long ''Innodb_mutex_spin_waits'' row 3,
                    assign_long ''Innodb_mutex_spin_rounds'' row 5,
                    assign_long ''Innodb_mutex_os_waits'' row 8] s)
      else if py_find line ''RW-shared spins'' = 0 \<and> py_find line '';'' > 0 then
        Some (seqE [assign_long ''Innodb_s_lock_spin_waits'' row 2,
                    assign_long ''Innodb_x_lock_spin_waits'' row 8,
                    assign_long ''Innodb_s_lock_os_waits'' row 5,
                    assign_long ''Innodb_x_lock_os_waits'' row 11] s)
      else if py_find line ''RW-shared spins'' = 0 \<and> py_find line ''; RW-excl spins'' = - 1 then
        Some (seqE [assign_long ''Innodb_s_lock_spin_waits'' row 2,
                    assign_long ''Innodb_s_lock_spin_rounds'' row 4,
                    assign_long ''Innodb_s_lock_os_waits'' row 7] s)
      else if py_find line ''RW-excl spins'' = 0 then
        Some (seqE [assign_long ''Innodb_x_lock_spin_waits'' row 2,
                    assign_long ''Innodb_x_lock_spin_rounds'' row 4,
                    assign_long ''Innodb_x_lock_os_waits'' row 7] s)
      else if py_find line ''seconds the semaphore:'' > 0 then
        Some (seqE [add_const ''Innodb_semaphore_waits'' 1,
                    add_long_float ''Innodb_semaphore_wait_time'' row 9 1000] s)
      else None)"

definition transactions :: "string \<Rightarrow> string list \<Rightarrow> parse_state \<Rightarrow> (py_error + parse_state) option" where
  "transactions line row s =
     (if py_find line ''Trx id counter'' = 0 then
        Some (Inr (s\<lparr>txn_seen := True\<rparr>))
      else if py_find line ''History list length'' = 0 then
        Some (assign_long ''Innodb_history_list_length'' row 3 s)
      else if txn_seen s \<and> py_find line ''---TRANSACTION'' = 0 then
        Some (seqE ([add_const ''Innodb_current_transactions'' 1] @
                    (if py_find line ''ACTIVE'' > 0
                     then [add_const ''Innodb_active_transactions'' 1] else [])) s)
      else if txn_seen s \<and> py_find line ''------- TRX HAS BEEN'' = 0 then
        Some (add_long ''Innodb_row_lock_time'' row 5 1000 s)
      else if py_find line ''read views open inside InnoDB'' > 0 then
        Some (assign_long ''Innodb_read_views'' row 0 s)
      else if py_find line ''mysql tables in use'' = 0 then
        Some (seqE [add_long ''Innodb_tables_in_use'' row 4 1,
                    add_long ''Innodb_locked_tables'' row 6 1] s)
      else if txn_seen s \<and> py_find line ''lock struct(s)'' > 0 then
        Some (if py_find line ''LOCK WAIT'' = 0 then
                seqE [add_long ''Innodb_lock_structs'' row 2 1,
                      add_const ''Innodb_locked_transactions'' 1] s
              else if py_find line ''ROLLING BACK'' = 0 then
                add_long ''Innodb_lock_structs'' row 2 1 s
              else add_long ''Innodb_lock_structs'' row 0 1 s)
      else None)"

text \<open>
  The body of the \<open>try\<close> for the line \<open>Pending normal aio reads:\<close>. An exception
  leaves the assignments made before it in place, so each step returns the state
  together with the exception, if any.
\<close>

definition try_assign_long :: "string \<Rightarrow> string list \<Rightarrow> nat \<Rightarrow> parse_state \<Rightarrow> py_error option \<times> parse_state" where
  "try_assign_long k row i s =
     (case long_at row i of Inl e \<Rightarrow> (Some e, s) | Inr v \<Rightarrow> (None, put k v s))"

fun sum_long :: "string list \<Rightarrow> nat list \<Rightarrow> py_error + int" where
  "sum_long row [] = Inr 0"
| "sum_long row (i # is) =
     bindE (long_at row i) (\<lambda>v. bindE (sum_long row is) (\<lambda>w. Inr (v + w)))"

definition try_assign_sum :: "string \<Rightarrow> string list \<Rightarrow> nat list \<Rightarrow> parse_state \<Rightarrow> py_error option \<times> parse_state" where
  "try_assign_sum k row is s =
     (case sum_long row is of Inl e \<Rightarrow> (Some e, s) | Inr v \<Rightarrow> (None, put k v s))"

fun try_seq :: "('s \<Rightarrow> py_error option \<times> 's) list \<Rightarrow> 's \<Rightarrow> py_error option \<times> 's" where
  "try_seq [] s = (None, s)"
| "try_seq (f # fs) s =
     (case f s of (Some e, s') \<Rightarrow> (Some e, s') | (None, s') \<Rightarrow> try_seq fs s')"

definition are_values_numeric :: "string list \<Rightarrow> bool" where
  "are_values_numeric array = list_all py_isdigit array"

definition pending_reads_writes :: "string list \<Rightarrow> nat \<Rightarrow> nat \<Rightarrow> parse_state \<Rightarrow> py_error option \<times> parse_state" where
  "pending_reads_writes row i j s =
     try_seq [try_assign_long ''Innodb_pending_normal_aio_reads'' row i,
              try_assign_long ''Innodb_pending_normal_aio_writes'' row j] s"

definition pending_normal_aio_body :: "string \<Rightarrow> string list \<Rightarrow> parse_state \<Rightarrow> py_error option \<times> parse_state" where
  "pending_normal_aio_body line row s =
     (if length row = 8 then pending_reads_writes row 4 7 s
      else if length row = 14 then pending_reads_writes row 4 10 s
      else if length row = 16 then
        (if are_values_numeric (py_slice row 4 8) \<and> are_values_numeric (py_slice row 11 15) then
           try_seq [try_assign_sum ''Innodb_pending_normal_aio_reads'' row [4, 5, 6, 7],
                    try_assign_sum ''Innodb_pending_normal_aio_writes'' row [11, 12, 13, 14]] s
         else if are_values_numeric (py_slice row 4 9) \<and> are_values_numeric (py_slice row 12 15) then
           pending_reads_writes row 4 12 s
         else (None, warn line s))
      else if length row = 18 then pending_reads_writes row 4 12 s
      else if length row = 22 then pending_reads_writes row 4 16 s
      else (None, s))"

text \<open>\<open>except ValueError\<close>: logged, and the scan goes on; anything else propagates.\<close>

definition pending_normal_aio :: "string \<Rightarrow> string list \<Rightarrow> parse_state \<Rightarrow> py_error + parse_state" where
  "pending_normal_aio line row s =
     (case pending_normal_aio_body line row s of
        (None, s') \<Rightarrow> Inr s'
      | (Some e, s') \<Rightarrow> if e = ValueError then Inr (warn line s') else Inl e)"

definition file_io :: "string \<Rightarrow> string list \<Rightarrow> parse_state \<Rightarrow> (py_error + parse_state) option" where
  "file_io line row s =
     (if py_find line '' OS file reads, '' > 0 then
        Some (seqE [assign_long ''Innodb_os_file_reads'' row 0,
                    assign_long ''Innodb_os_file_writes'' row 4,
                    assign_long ''Innodb_os_file_fsyncs'' row 8] s)
      else if py_find line ''Pending normal aio reads:'' = 0 then
        Some (pending_normal_aio line row s)
      else if py_find line ''ibuf aio reads'' = 0 then
        Some (if length row = 10 then
                seqE [assign_long ''Innodb_pending_ibuf_aio_reads'' row 3,
                      assign_long ''Innodb_pending_aio_log_ios'' row 6,
                      assign_long ''Innodb_pending_aio_sync_ios'' row 9] s
              else if length row = 7 then
                seqE [assign_const ''Innodb_pending_ibuf_aio_reads'' 0,
                      assign_const ''Innodb_pending_aio_log_ios'' 0,
                      assign_const ''Innodb_pending_aio_sync_ios'' 0] s
              else Inr s)
      else if py_find line ''Pending flushes (fsync)'' = 0 then
        Some (seqE [assign_long ''Innodb_pending_log_flushes'' row 4,
                    assign_long ''Innodb_pending_buffer_pool_flushes'' row 7] s)
      else None)"

text \<open>\<open>results['Innodb_ibuf_merged'] = \<close> the sum of the three counters just stored.\<close>

definition assign_ibuf_merged :: "parse_state \<Rightarrow> py_error + parse_state" where
  "assign_ibuf_merged s =
     Inr (put ''Innodb_ibuf_merged''
            (dd_value (results s) ''Innodb_ibuf_merged_inserts''
             + dd_value (results s) ''Innodb_ibuf_merged_delete_marks''
             + dd_value (results s) ''Innodb_ibuf_merged_deletes'') s)"

definition insert_buffer :: "string \<Rightarrow> string list \<Rightarrow> parse_state \<Rightarrow> (py_error + parse_state) option" where
  "insert_buffer line row s =
     (if py_find line ''Ibuf for space 0: size '' = 0 then
        Some (seqE [assign_long ''Innodb_ibuf_size'' row 5,
                    assign_long ''Innodb_ibuf_free_list'' row 9,
                    assign_long ''Innodb_ibuf_segment_size'' row 12] s)
      else if py_find line ''Ibuf: size '' = 0 then
        Some (seqE ([assign_long ''Innodb_ibuf_size'' row 2,
                     assign_long ''Innodb_ibuf_free_list'' row 6,
                     assign_long ''Innodb_ibuf_segment_size'' row 9] @
                    (if py_find line ''merges'' > - 1
                     then [assign_long ''Innodb_ibuf_merges'' row 10] else [])) s)
      else if py_find line '', delete mark '' > 0
              \<and> py_find (prev_line s) ''merged operations:'' = 0 then
        Some (seqE [assign_long ''Innodb_ibuf_merged_inserts'' row 1,
                    assign_long ''Innodb_ibuf_merged_delete_marks'' row 4,
                    assign_long ''Innodb_ibuf_merged_deletes'' row 6,
                    assign_ibuf_merged] s)
      else if py_find line '' merged recs, '' > 0 then
        Some (seqE [assign_long ''Innodb_ibuf_merged_inserts'' row 0,
                    assign_long ''Innodb_ibuf_merged'' row 2,
                    assign_long ''Innodb_ibuf_merges'' row 5] s)
      else if py_find line ''Hash table size '' = 0 then
        Some (seqE [assign_long ''Innodb_hash_index_cells_total'' row 3,
                    (if py_find line ''used cells'' > 0
                     then assign_long ''Innodb_hash_index_cells_used'' row 6
                     else assign_const ''Innodb_hash_index_cells_used'' 0)] s)
      else None)"

definition log_section :: "string \<Rightarrow> string list \<Rightarrow> parse_state \<Rightarrow> (py_error + parse_state) option" where
  "log_section line row s =
     (if py_find line '' log i/o's done, '' > 0 then
        Some (assign_long ''Innodb_log_writes'' row 0 s)
      else if py_find line '' pending log writes, '' > 0 then
        Some (seqE [assign_long ''Innodb_pending_log_writes'' row 0,
                    assign_long ''Innodb_pending_checkpoint_writes'' row 4] s)
      else if py_find line ''Log sequence number'' = 0 then
        Some (assign_long ''Innodb_lsn_current'' row 3 s)
      else if py_find line ''Log flushed up to'' = 0 then
        Some (assign_long ''Innodb_lsn_flushed'' row 4 s)
      else if py_find line ''Last checkpoint at'' = 0 then
        Some (assign_long ''Innodb_lsn_last_checkpoint'' row 3 s)
      else None)"

definition memory_section :: "string \<Rightarrow> string list \<Rightarrow> parse_state \<Rightarrow> (py_error + parse_state) option" where
  "memory_section line row s =
     (if py_find line ''Total memory allocated'' = 0
         \<and> py_find line ''in additional pool allocated'' > 0 then
        Some (seqE [assign_long ''Innodb_mem_total'' row 3,
                    assign_long ''Innodb_mem_additional_pool'' row 8] s)
      else if py_find line ''Adaptive hash index '' = 0 then
        Some (assign_long ''Innodb_mem_adaptive_hash'' row 3 s)
      else if py_find line ''Page hash           '' = 0 then
        Some (assign_long ''Innodb_mem_page_hash'' row 2 s)
      else if py_find line ''Dictionary cache    '' = 0 then
        Some (assign_long ''Innodb_mem_dictionary'' row 2 s)
      else if py_find line ''File system         '' = 0 then
        Some (assign_long ''Innodb_mem_file_system'' row 2 s)
      else if py_find line ''Lock system         '' = 0 then
        Some (assign_long ''Innodb_mem_lock_system'' row 2 s)
      else if py_find line ''Recovery system     '' = 0 then
        Some (assign_long ''Innodb_mem_recovery_system'' row 2 s)
      else if py_find line ''Threads             '' = 0 then
        Some (assign_long ''Innodb_mem_thread_hash'' row 1 s)
      else None)"

definition buffer_pool :: "string \<Rightarrow> string list \<Rightarrow> parse_state \<Rightarrow> (py_error + parse_state) option" where
  "buffer_pool line row s =
     (if py_find line ''Buffer pool size '' = 0 then
        Some (if buffer_id s = - 1
              then assign_long ''Innodb_buffer_pool_pages_total'' row 3 s else Inr s)
      else if py_find line ''Free buffers'' = 0 then
        Some (if buffer_id s = - 1
              then assign_long ''Innodb_buffer_pool_pages_free'' row 2 s else Inr s)
      else if py_find line ''Database pages'' = 0 then
        Some (if buffer_id s = - 1
              then assign_long ''Innodb_buffer_pool_pages_data'' row 2 s else Inr s)
      else if py_find line ''Modified db pages'' = 0 then
        Some (if buffer_id s = - 1
              then assign_long ''Innodb_buffer_pool_pages_dirty'' row 3 s else Inr s)
      else if py_find line ''Pages read ahead'' = 0 then
        Some (Inr s)
      else if py_find line ''Pages read'' = 0 then
        Some (if buffer_id s = - 1
              then seqE [assign_long ''Innodb_pages_read'' row 2,
                         assign_long ''Innodb_pages_created'' row 4,
                         assign_long ''Innodb_pages_written'' row 6] s
              else Inr s)
      else None)"

definition row_operations :: "string \<Rightarrow> string list \<Rightarrow> parse_state \<Rightarrow> (py_error + parse_state) option" where
  "row_operations line row s =
     (if py_find line ''Number of rows inserted'' = 0 then
        Some (seqE [assign_long ''Innodb_rows_inserted'' row 4,
                    assign_long ''Innodb_rows_updated'' row 6,
                    assign_long ''Innodb_rows_deleted'' row 8,
                    assign_long ''Innodb_rows_read'' row 10] s)
      else if py_find line '' queries inside InnoDB, '' > 0 then
        Some (seqE [assign_long ''Innodb_queries_inside'' row 0,
                    assign_long ''Innodb_queries_queued'' row 4] s)
      else None)"

text \<open>The whole chain: the groups in the order of the source; no match, no change.\<close>

fun first_match :: "(parse_state \<Rightarrow> (py_error + parse_state) option) list \<Rightarrow> parse_state \<Rightarrow> py_error + parse_state" where
  "first_match [] s = Inr s"
| "first_match (g # gs) s = (case g s of Some r \<Rightarrow> r | None \<Rightarrow> first_match gs s)"

definition dispatch :: "string \<Rightarrow> string list \<Rightarrow> parse_state \<Rightarrow> py_error + parse_state" where
  "dispatch line row s =
     first_match [semaphores line row, transactions line row, file_io line row,
                  insert_buffer line row, log_section line row, memory_section line row,
                  buffer_pool line row, row_operations line row] s"

text \<open>The tokens of a line: split at runs of blanks, then four \<open>strip\<close>s of each.\<close>

definition tokenize :: "string \<Rightarrow> string list" where
  "tokenize line =
     map (strip_char (CHR '']''))
       (map (strip_char (CHR ''[''))
          (map (strip_char (CHR '';''))
             (map (strip_char (CHR '','')) (re_split_blanks line))))"

text \<open>One turn of the loop over the lines.\<close>

definition set_buffer_id :: "string \<Rightarrow> string list \<Rightarrow> parse_state \<Rightarrow> py_error + parse_state" where
  "set_buffer_id line row s =
     (if py_startswith line ''---BUFFER POOL''
      then bindE (long_at row 2) (\<lambda>v. Inr (s\<lparr>buffer_id := v\<rparr>))
      else Inr s)"

definition innodb_line :: "parse_state \<Rightarrow> string \<Rightarrow> py_error + parse_state" where
  "innodb_line s raw =
     (let line = py_strip raw; row = tokenize line in
      bindE (set_buffer_id line row s) (\<lambda>s1.
      bindE (dispatch line row s1) (\<lambda>s2.
        Inr (s2\<lparr>prev_line := line\<rparr>))))"

fun scan_lines :: "parse_state \<Rightarrow> string list \<Rightarrow> py_error + parse_state" where
  "scan_lines s [] = Inr s"
| "scan_lines s (l # ls) = bindE (innodb_line s l) (\<lambda>s'. scan_lines s' ls)"

definition initial_state :: parse_state where
  "initial_state =
     \<lparr>results = Map.empty, txn_seen = False, prev_line = [], buffer_id = - 1, warnings = []\<rparr>"

text \<open>
  After the loop: \<open>results['Innodb_checkpoint_age'] = results['Innodb_lsn_current'] -
  results['Innodb_lsn_last_checkpoint']\<close>. Both reads are reads of the
  \<open>defaultdict\<close>, which never raise KeyError: the handler of the \<open>try\<close> is never
  entered.
\<close>

definition checkpoint_age :: "(string \<rightharpoonup> int) \<Rightarrow> (string \<rightharpoonup> int)" where
  "checkpoint_age m =
     (let a = dd_value m ''Innodb_lsn_current'';
          m1 = dd_touch m ''Innodb_lsn_current'';
          b = dd_value m1 ''Innodb_lsn_last_checkpoint'';
          m2 = dd_touch m1 ''Innodb_lsn_last_checkpoint''
      in m2(''Innodb_checkpoint_age'' \<mapsto> a - b))"

text \<open>Last, every value becomes its \<open>str\<close>.\<close>

definition stringify :: "(string \<rightharpoonup> int) \<Rightarrow> (string \<rightharpoonup> string)" where
  "stringify m = (\<lambda>k. map_option py_str_int (m k))"

definition parse_innodb_status :: "string \<Rightarrow> py_error + (string \<rightharpoonup> string)" where
  "parse_innodb_status innodb_status_text =
     bindE (scan_lines initial_state (py_splitlines innodb_status_text))
       (\<lambda>s. Inr (stringify (checkpoint_age (results s))))"

text \<open>
  What the query gave: an error of the kinds the function catches, no row, or the
  status text of the first row. The first two return the empty dictionary.
\<close>

datatype innodb_fetch = QueryError | NoRows | StatusText string

definition get_stats_from_innodb_status :: "innodb_fetch \<Rightarrow> py_error + (string \<rightharpoonup> string)" where
  "get_stats_from_innodb_status f =
     (case f of
        QueryError \<Rightarrow> Inr Map.empty
      | NoRows \<Rightarrow> Inr Map.empty
      | StatusText t \<Rightarrow> parse_innodb_status t)"

section \<open>The catalog of metrics of a pass\<close>

datatype metric_type = RATE | GAUGE | COUNT | MONOTONIC

type_synonym metric_table = "string \<rightharpoonup> string \<times> metric_type"

text \<open>
  The dictionaries of the constants module. They are objects of the module, shared by
  every pass of the process, and their contents are parameters here. \<open>_collect_metrics\<close>
  begins with \<open>metrics = STATUS_VARS\<close>, which binds a second name to the module's
  dictionary: each \<open>metrics.update(...)\<close> and \<open>metrics.pop(...)\<close> of the pass is an
  update of \<open>STATUS_VARS\<close> itself. The state of the module is therefore threaded
  through the pass, and returned also when the pass raises.
\<close>

record module_tables =
  STATUS_VARS :: metric_table
  VARIABLES_VARS :: metric_table
  INNODB_VARS :: metric_table
  BINLOG_VARS :: metric_table
  OPTIONAL_STATUS_VARS :: metric_table
  OPTIONAL_STATUS_VARS_5_6_6 :: metric_table
  OPTIONAL_INNODB_VARS :: metric_table
  GALERA_VARS :: metric_table
  PERFORMANCE_VARS :: metric_table
  SCHEMA_VARS :: metric_table
  REPLICA_VARS :: metric_table
  SYNTHETIC_VARS :: metric_table

text \<open>
  What a pass reads to build its catalog: the toggles of \<open>options\<close> after
  \<open>is_affirmative\<close>, the answer of \<open>_is_innodb_engine_enabled\<close>, the truth value of
  \<open>_get_variable_enabled(results, 'performance_schema')\<close>, the metadata, what the
  replication classifier reads, and which keys \<open>results\<close> holds once the synthetic
  values are computed. The other statements of the pass do not touch the tables and
  are taken to return.
\<close>

record pass_input =
  disable_innodb_metrics :: bool
  innodb_engine_enabled :: bool
  extra_innodb_metrics :: bool
  extra_status_metrics :: bool
  galera_cluster :: bool
  extra_performance_metrics :: bool
  performance_schema_enabled :: bool
  schema_size_metrics :: bool
  replication :: bool
  metadata :: "mysql_metadata option"
  replica :: replication_input
  in_results :: "string \<Rightarrow> bool"

text \<open>\<open>metrics.update(T)\<close> for a table \<open>T\<close> of the module.\<close>

definition metrics_update :: "(module_tables \<Rightarrow> metric_table) \<Rightarrow> module_tables \<Rightarrow> py_error option \<times> module_tables" where
  "metrics_update T t = (None, t\<lparr>STATUS_VARS := STATUS_VARS t ++ T t\<rparr>)"

definition when_toggle :: "bool \<Rightarrow> ('s \<Rightarrow> py_error option \<times> 's) \<Rightarrow> 's \<Rightarrow> py_error option \<times> 's" where
  "when_toggle c f t = (if c then f t else (None, t))"

text \<open>A call of \<open>_version_compatible\<close> whose answer decides the next step.\<close>

definition with_version :: "mysql_metadata option \<Rightarrow> int \<times> int \<times> int \<Rightarrow> (bool \<Rightarrow> 's \<Rightarrow> py_error option \<times> 's) \<Rightarrow> 's \<Rightarrow> py_error option \<times> 's" where
  "with_version md cv f t =
     (case version_compatible md cv of Inl e \<Rightarrow> (Some e, t) | Inr b \<Rightarrow> f b t)"

text \<open>The classifier runs after \<open>metrics.update(REPLICA_VARS)\<close>.\<close>

definition run_classifier :: "mysql_metadata option \<Rightarrow> replication_input \<Rightarrow> 's \<Rightarrow> py_error option \<times> 's" where
  "run_classifier md r t =
     (case replication_report md r of Inl e \<Rightarrow> (Some e, t) | Inr _ \<Rightarrow> (None, t))"

text \<open>\<open>for k in SYNTHETIC_VARS: if k not in results: metrics.pop(k, None)\<close>.\<close>

definition remove_uncomputed :: "(string \<Rightarrow> bool) \<Rightarrow> module_tables \<Rightarrow> py_error option \<times> module_tables" where
  "remove_uncomputed present t =
     (None, t\<lparr>STATUS_VARS :=
        (\<lambda>k. if SYNTHETIC_VARS t k \<noteq> None \<and> \<not> present k then None else STATUS_VARS t k)\<rparr>)"

text \<open>
  The statements of \<open>_collect_metrics\<close> that act on \<open>metrics\<close>, in the order of the
  source. The catalog handed to \<open>_submit_metrics\<close> is \<open>STATUS_VARS\<close> of the state
  returned, when no exception is.
\<close>

definition collect_metrics :: "pass_input \<Rightarrow> module_tables \<Rightarrow> py_error option \<times> module_tables" where
  "collect_metrics p =
     try_seq
       [when_toggle (\<not> disable_innodb_metrics p \<and> innodb_engine_enabled p)
          (when_toggle (extra_innodb_metrics p) (metrics_update OPTIONAL_INNODB_VARS)),
        metrics_update VARIABLES_VARS,
        metrics_update INNODB_VARS,
        metrics_update BINLOG_VARS,
        when_toggle (extra_status_metrics p)
          (try_seq [metrics_update OPTIONAL_STATUS_VARS,
                    with_version (metadata p) (5, 6, 6)
                      (\<lambda>b. when_toggle b (metrics_update OPTIONAL_STATUS_VARS_5_6_6))]),
        when_toggle (galera_cluster p) (metrics_update GALERA_VARS),
        with_version (metadata p) (5, 6, 0)
          (\<lambda>above_560. when_toggle
             (extra_performance_metrics p \<and> above_560 \<and> performance_schema_enabled p)
             (metrics_update PERFORMANCE_VARS)),
        when_toggle (schema_size_metrics p) (metrics_update SCHEMA_VARS),
        when_toggle (replication p)
          (try_seq [metrics_update REPLICA_VARS, run_classifier (metadata p) (replica p)]),
        metrics_update SYNTHETIC_VARS,
        remove_uncomputed (in_results p)]"

text \<open>The catalog of a pass that returned; \<open>None\<close> for a pass that raised.\<close>

definition catalog_of :: "py_error option \<times> module_tables \<Rightarrow> metric_table option" where
  "catalog_of r = (case fst r of None \<Rightarrow> Some (STATUS_VARS (snd r)) | Some e \<Rightarrow> None)"

section \<open>Query-cache utilization\<close>

text \<open>A number in \<open>results\<close>: the code stores the integer 0 or a float.\<close>

datatype py_num = PInt int | PFloat py_float

text \<open>
  The part of \<open>results\<close> that \<open>_compute_synthetic_results\<close> reads and writes: the
  three counters as SHOW STATUS reports them (strings; \<open>None\<close> for an absent key), and
  the two values it may add.
\<close>

record qcache_results =
  Qcache_hits :: "string option"
  Qcache_inserts :: "string option"
  Qcache_not_cached :: "string option"
  Qcache_utilization :: "py_num option"
  Qcache_instant_utilization :: "py_num option"

text \<open>The attributes \<open>_qcache_hits\<close>, \<open>_qcache_inserts\<close>, \<open>_qcache_not_cached\<close>.\<close>

record qcache_state =
  qcache_hits :: "int option"
  qcache_inserts :: "int option"
  qcache_not_cached :: "int option"

text \<open>Float arithmetic with an \<open>int\<close> on the right: the \<open>int\<close> is converted first.\<close>

definition float_div_int :: "py_float \<Rightarrow> int \<Rightarrow> py_error + py_float" where
  "float_div_int x n = bindE (float_of_int n) (\<lambda>y. float_div x y)"

definition float_mul_int :: "py_float \<Rightarrow> int \<Rightarrow> py_error + py_float" where
  "float_mul_int x n = bindE (float_of_int n) (\<lambda>y. Inr (float_mul x y))"

definition float_sub_int :: "py_float \<Rightarrow> int \<Rightarrow> py_error + py_float" where
  "float_sub_int x n = bindE (float_of_int n) (\<lambda>y. Inr (float_sub x y))"

text \<open>
  \<open>float(hits) / (int(inserts) + int(not_cached) + int(hits)) * 100\<close>, or 0 when
  \<open>int(hits)\<close> is 0.
\<close>

definition cumulative_utilization :: "string \<Rightarrow> string \<Rightarrow> string \<Rightarrow> py_error + py_num" where
  "cumulative_utilization hits inserts not_cached =
     bindE (py_int hits) (\<lambda>h.
       if h = 0 then Inr (PInt 0)
       else
         bindE (py_float_of_str hits) (\<lambda>x.
         bindE (py_int inserts) (\<lambda>i.
         bindE (py_int not_cached) (\<lambda>n.
         bindE (py_int hits) (\<lambda>h'.
         bindE (float_div_int x (i + n + h')) (\<lambda>q.
         bindE (float_mul_int q 100) (\<lambda>u. Inr (PFloat u))))))))"

text \<open>The same over the differences to the counters of the previous pass.\<close>

definition instant_utilization :: "int \<Rightarrow> int \<Rightarrow> int \<Rightarrow> string \<Rightarrow> string \<Rightarrow> string \<Rightarrow> py_error + py_num" where
  "instant_utilization ph pins pnc hits inserts not_cached =
     bindE (py_int hits) (\<lambda>h.
       if h - ph = 0 then Inr (PInt 0)
       else
         bindE (py_float_of_str hits) (\<lambda>x.
         bindE (float_sub_int x ph) (\<lambda>top.
         bindE (py_int inserts) (\<lambda>i.
         bindE (py_int not_cached) (\<lambda>n.
         bindE (py_int hits) (\<lambda>h'.
         bindE (float_div_int top ((i - pins) + (n - pnc) + (h' - ph))) (\<lambda>q.
         bindE (float_mul_int q 100) (\<lambda>u. Inr (PFloat u)))))))))"

definition compute_synthetic_results :: "qcache_state \<Rightarrow> qcache_results \<Rightarrow> py_error + qcache_results \<times> qcache_state" where
  "compute_synthetic_results q res =
     (case (Qcache_hits res, Qcache_inserts res, Qcache_not_cached res) of
        (Some hits, Some inserts, Some not_cached) \<Rightarrow>
          bindE (cumulative_utilization hits inserts not_cached) (\<lambda>u.
          bindE (case (qcache_hits q, qcache_inserts q, qcache_not_cached q) of
                   (Some ph, Some pins, Some pnc) \<Rightarrow>
                     bindE (instant_utilization ph pins pnc hits inserts not_cached)
                       (\<lambda>v. Inr (res\<lparr>Qcache_utilization := Some u,
                                          Qcache_instant_utilization := Some v\<rparr>))
                 | _ \<Rightarrow> Inr (res\<lparr>Qcache_utilization := Some u\<rparr>)) (\<lambda>res1.
          bindE (py_int hits) (\<lambda>h.
          bindE (py_int inserts) (\<lambda>i.
          bindE (py_int not_cached) (\<lambda>n.
            Inr (res1, \<lparr>qcache_hits = Some h, qcache_inserts = Some i,
                            qcache_not_cached = Some n\<rparr>))))))
      | _ \<Rightarrow> Inr (res, q))"

text \<open>
  The store \<open>qcache_stats\<close> of the check, keyed by \<open>_get_host_key\<close>:
  \<open>_set_qcache_stats\<close> at the start of a pass, \<open>_put_qcache_stats\<close> at its end.
\<close>

type_synonym qcache_store = "string \<rightharpoonup> int option \<times> int option \<times> int option"

definition set_qcache_stats :: "qcache_store \<Rightarrow> conn_config \<Rightarrow> qcache_state" where
  "set_qcache_stats store c =
     (case store (get_host_key c) of
        None \<Rightarrow> \<lparr>qcache_hits = None, qcache_inserts = None, qcache_not_cached = None\<rparr>
      | Some (a, b, d) \<Rightarrow> \<lparr>qcache_hits = a, qcache_inserts = b, qcache_not_cached = d\<rparr>)"

definition put_qcache_stats :: "qcache_store \<Rightarrow> conn_config \<Rightarrow> qcache_state \<Rightarrow> qcache_store" where
  "put_qcache_stats store c q =
     store(get_host_key c \<mapsto> (qcache_hits q, qcache_inserts q, qcache_not_cached q))"

text \<open>
  One pass of \<open>check\<close>, as far as the query cache goes: the counters of the previous
  pass are read, the synthetic values computed from this pass's \<open>results\<close>, and the
  counters stored. The rest of the pass is taken to return.
\<close>

definition sample :: "qcache_store \<Rightarrow> conn_config \<Rightarrow> qcache_results \<Rightarrow> py_error + qcache_results \<times> qcache_store" where
  "sample store c res =
     bindE (compute_synthetic_results (set_qcache_stats store c) res)
       (\<lambda>(res1, q). Inr (res1, put_qcache_stats store c q))"

section \<open>Notions used to state and prove the properties\<close>

text \<open>The counters of the aggregate buffer pool, which per-pool reports must not touch.\<close>

definition aggregate_keys :: "string list" where
  "aggregate_keys =
     [''Innodb_buffer_pool_pages_total'', ''Innodb_buffer_pool_pages_free'',
      ''Innodb_buffer_pool_pages_data'', ''Innodb_buffer_pool_pages_dirty'',
      ''Innodb_pages_read'', ''Innodb_pages_created'', ''Innodb_pages_written'']"

text \<open>A step leaves an observation \<open>g\<close> of the state as it was, whenever it returns.\<close>

definition preserved :: "(parse_state \<Rightarrow> 'a) \<Rightarrow> (parse_state \<Rightarrow> py_error + parse_state) \<Rightarrow> bool" where
  "preserved g f = (\<forall>s s'. f s = Inr s' \<longrightarrow> g s' = g s)"

text \<open>
  Tables with one descriptor for the base set and one for each optional group, and
  the inputs of a pass with every toggle on or every toggle off, on a 5.7.20 server.
\<close>

definition example_tables :: module_tables where
  "example_tables =
     \<lparr>STATUS_VARS = [''Connections'' \<mapsto> (''mysql.net.connections'', RATE)],
      VARIABLES_VARS = Map.empty,
      INNODB_VARS = Map.empty,
      BINLOG_VARS = Map.empty,
      OPTIONAL_STATUS_VARS = [''Binlog_cache_disk_use'' \<mapsto> (''mysql.binlog.cache_disk_use'', GAUGE)],
      OPTIONAL_STATUS_VARS_5_6_6 =
        [''Table_open_cache_hits'' \<mapsto> (''mysql.performance.table_cache_hits'', RATE)],
      OPTIONAL_INNODB_VARS =
        [''Innodb_history_list_length'' \<mapsto> (''mysql.innodb.history_list_length'', GAUGE)],
      GALERA_VARS = [''wsrep_cluster_size'' \<mapsto> (''mysql.galera.wsrep_cluster_size'', GAUGE)],
      PERFORMANCE_VARS =
        [''query_run_time_avg'' \<mapsto> (''mysql.performance.query_run_time.avg'', GAUGE)],
      SCHEMA_VARS = [''information_schema_size'' \<mapsto> (''mysql.info.schema.size'', GAUGE)],
      REPLICA_VARS = Map.empty,
      SYNTHETIC_VARS = Map.empty\<rparr>"

definition example_pass :: "bool \<Rightarrow> pass_input" where
  "example_pass on =
     \<lparr>disable_innodb_metrics = False, innodb_engine_enabled = True,
      extra_innodb_metrics = on, extra_status_metrics = on, galera_cluster = on,
      extra_performance_metrics = on, performance_schema_enabled = True,
      schema_size_metrics = on, replication = False,
      metadata = Some \<lparr>version = ''5.7.20'', flavor = ''MySQL'', build = ''log''\<rparr>,
      replica = \<lparr>slave_running = None, binlog_running = False, slaves = None,
                 slave_io_running = None, slave_sql_running = None, master_host = None\<rparr>,
      in_results = (\<lambda>k. False)\<rparr>"

definition optional_keys :: "string list" where
  "optional_keys =
     [''Binlog_cache_disk_use'', ''Table_open_cache_hits'', ''Innodb_history_list_length'',
      ''wsrep_cluster_size'', ''query_run_time_avg'', ''information_schema_size'']"

section \<open>Properties\<close>

subsection \<open>Auxiliary facts about the built-ins\<close>

lemma bindE_simps:
  "bindE (Inl e) f = Inl e" "bindE (Inr v) f = f v"
  by (simp_all add: bindE_def)

lemma split_on_not_Nil: "split_on sep cur s \<noteq> []"
  by (induction s arbitrary: cur) auto

lemma digit_rest_total: "list_all is_dec s \<Longrightarrow> \<exists>n. digit_rest acc s = Some n"
  by (induction acc s rule: digit_rest.induct) auto

lemma digitpart_total: "s \<noteq> [] \<Longrightarrow> list_all is_dec s \<Longrightarrow> \<exists>n. digitpart s = Some n"
  by (cases s) (auto simp: digitpart_def digit_rest_total)

lemma strip_where_none:
  assumes "s \<noteq> []" "\<not> P (hd s)" "\<not> P (last s)"
  shows "strip_where P s = s"
proof -
  from assms have "dropWhile P s = s" by (cases s) auto
  moreover from assms have "dropWhile P (rev s) = rev s"
    by (cases "rev s") (auto simp: last_rev [symmetric] hd_rev)
  ultimately show ?thesis by (simp add: strip_where_def)
qed

lemma is_dec_not_space: "is_dec c \<Longrightarrow> \<not> int_isspace c"
  by (auto simp: is_dec_def int_isspace_def Let_def)

lemma is_dec_not_sign: "is_dec c \<Longrightarrow> c \<noteq> CHR ''-'' \<and> c \<noteq> CHR ''+''"
  by (auto simp: is_dec_def)

lemma py_int_digit_run:
  assumes "s \<noteq> []" "list_all is_dec s"
  shows "\<exists>n. py_int s = Inr (int n)"
proof -
  from assms have h: "is_dec (hd s)" and l: "is_dec (last s)"
    by (auto simp: list_all_iff)
  then have st: "strip_where int_isspace s = s"
    using assms(1) by (intro strip_where_none) (auto dest: is_dec_not_space)
  obtain c cs where s: "s = c # cs" using assms(1) by (cases s) auto
  with h have c: "c \<noteq> CHR ''-''" "c \<noteq> CHR ''+''" using is_dec_not_sign by auto
  from digitpart_total [OF assms] obtain n where "digitpart s = Some n" ..
  then show ?thesis using st s c by (auto simp: py_int_def signed_body_def)
qed

lemma takeWhile_all: "list_all P (takeWhile P xs)"
  by (induction xs) auto

lemma str_3306: "py_str_int 3306 = ''3306''"
  by code_simp

subsection \<open>Version information\<close>

lemma metadata_loop_flavor:
  "fst (metadata_loop B ps (fl, bd)) =
     (if ''MariaDB'' \<in> set ps then ''MariaDB''
      else if fl = [] \<and> ps \<noteq> [] then ''MySQL'' else fl)"
  by (induction ps arbitrary: fl bd) (auto simp: Let_def)

lemma py_int_error: "py_int t = Inl e \<Longrightarrow> e = ValueError"
  by (auto simp: py_int_def split: option.splits)

lemma metadata_loop_build:
  "snd (metadata_loop B ps (fl, bd)) =
     (case filter (\<lambda>d. d \<in> set B) ps of [] \<Rightarrow> bd | d # ds \<Rightarrow> last (d # ds))"
  by (induction ps arbitrary: fl bd) (auto simp: Let_def split: list.splits)

lemma build_of_metadata:
  "build (get_metadata B raw) =
     (case filter (\<lambda>d. d \<in> set B) (py_split (CHR ''-'') raw) of
        [] \<Rightarrow> ''unspecified''
      | d # ds \<Rightarrow> if last (d # ds) = [] then ''unspecified'' else last (d # ds))"
  by (simp add: get_metadata_def Let_def metadata_loop_build split: list.splits)

lemma build_in_BUILDS:
  "build (get_metadata B raw) = ''unspecified'' \<or> build (get_metadata B raw) \<in> set B"
proof (cases "filter (\<lambda>d. d \<in> set B) (py_split (CHR ''-'') raw)")
  case Nil
  then show ?thesis by (simp add: build_of_metadata)
next
  case (Cons d ds)
  have "last (d # ds) \<in> set (filter (\<lambda>d. d \<in> set B) (py_split (CHR ''-'') raw))"
    unfolding Cons by (rule last_in_set) simp
  then have "last (d # ds) \<in> set B" by simp
  with Cons show ?thesis by (simp add: build_of_metadata)
qed


text \<open>
  C4, as the code has it. Resolving the metadata cannot fail, and it never leaves the
  flavor or the build empty: the version is the text before the first \<open>-\<close>, the flavor
  is MariaDB when a segment says so and MySQL otherwise, the build is the last segment
  that is a word of \<open>BUILDS\<close>, and \<open>unspecified\<close> when there is none or when that
  word is the empty one; so it is a word of \<open>BUILDS\<close> or \<open>unspecified\<close>. The comparison raises IndexError on every version
  with fewer than three dot-separated segments: nothing is padded. With three or more,
  it raises AttributeError when the third segment does not start with a decimal digit;
  otherwise the patch level is the leading digit run of the third segment, the
  comparison raises ValueError when the first or the second segment is no integer
  literal, and returns the comparison of the triples when both are; so that \<open>5.0.51a\<close>
  is at least (5, 0, 50).
\<close>

theorem version_resolution_total:
  "flavor (get_metadata BUILDS raw) =
     (if ''MariaDB'' \<in> set (py_split (CHR ''-'') raw) then ''MariaDB'' else ''MySQL'') \<and>
   build (get_metadata BUILDS raw) =
     (case filter (\<lambda>d. d \<in> set BUILDS) (py_split (CHR ''-'') raw) of
        [] \<Rightarrow> ''unspecified''
      | d # ds \<Rightarrow> if last (d # ds) = [] then ''unspecified'' else last (d # ds)) \<and>
   build (get_metadata BUILDS raw) \<noteq> [] \<and>
   (build (get_metadata BUILDS raw) = ''unspecified'' \<or>
    build (get_metadata BUILDS raw) \<in> set BUILDS) \<and>
   version (get_metadata BUILDS raw) = hd (py_split (CHR ''-'') raw) \<and>
   (length (py_split (CHR ''.'') (version m)) < 3 \<longrightarrow>
      version_compatible (Some m) cv = Inl IndexError) \<and>
   (py_split (CHR ''.'') (version m) = a # b # c # rest \<longrightarrow>
      (takeWhile is_dec c = [] \<longrightarrow> version_compatible (Some m) cv = Inl AttributeError) \<and>
      (takeWhile is_dec c \<noteq> [] \<longrightarrow>
         (\<exists>p. py_int (takeWhile is_dec c) = Inr (int p) \<and>
              version_compatible (Some m) cv =
                (case py_int a of Inl e \<Rightarrow> Inl ValueError
                 | Inr major \<Rightarrow>
                     (case py_int b of Inl e \<Rightarrow> Inl ValueError
                      | Inr minor \<Rightarrow> Inr (triple_ge (major, minor, int p) cv)))))) \<and>
   version_compatible (Some (get_metadata BUILDS ''5.0.51a'')) (5, 0, 50) = Inr True"
proof (intro conjI impI)
  show "flavor (get_metadata BUILDS raw) =
     (if ''MariaDB'' \<in> set (py_split (CHR ''-'') raw) then ''MariaDB'' else ''MySQL'')"
    by (simp add: get_metadata_def Let_def metadata_loop_flavor py_split_def split_on_not_Nil)
  show "build (get_metadata BUILDS raw) =
     (case filter (\<lambda>d. d \<in> set BUILDS) (py_split (CHR ''-'') raw) of
        [] \<Rightarrow> ''unspecified''
      | d # ds \<Rightarrow> if last (d # ds) = [] then ''unspecified'' else last (d # ds))"
    by (rule build_of_metadata)
  show "build (get_metadata BUILDS raw) \<noteq> []"
    by (simp add: get_metadata_def Let_def)
  show "build (get_metadata BUILDS raw) = ''unspecified'' \<or>
    build (get_metadata BUILDS raw) \<in> set BUILDS"
    by (rule build_in_BUILDS)
  show "version (get_metadata BUILDS raw) = hd (py_split (CHR ''-'') raw)"
    by (cases "py_split (CHR ''-'') raw")
       (simp_all add: get_metadata_def Let_def py_split_def split_on_not_Nil)
  show "version_compatible (Some (get_metadata BUILDS ''5.0.51a'')) (5, 0, 50) = Inr True"
    by code_simp
next
  assume "length (py_split (CHR ''.'') (version m)) < 3"
  then show "version_compatible (Some m) cv = Inl IndexError"
    by (simp add: version_compatible_def Let_def py_index_def bindE_simps)
next
  assume "py_split (CHR ''.'') (version m) = a # b # c # rest" "takeWhile is_dec c = []"
  then show "version_compatible (Some m) cv = Inl AttributeError"
    by (simp add: version_compatible_def Let_def py_index_def bindE_simps)
next
  assume a: "py_split (CHR ''.'') (version m) = a # b # c # rest" "takeWhile is_dec c \<noteq> []"
  then obtain p where p: "py_int (takeWhile is_dec c) = Inr (int p)"
    using py_int_digit_run [of "takeWhile is_dec c"] takeWhile_all by blast
  have "version_compatible (Some m) cv =
                (case py_int a of Inl e \<Rightarrow> Inl ValueError
                 | Inr major \<Rightarrow>
                     (case py_int b of Inl e \<Rightarrow> Inl ValueError
                      | Inr minor \<Rightarrow> Inr (triple_ge (major, minor, int p) cv)))"
    using a p
    by (cases "py_int a"; cases "py_int b")
       (auto simp: version_compatible_def Let_def py_index_def bindE_simps dest: py_int_error)
  with p show "\<exists>p. py_int (takeWhile is_dec c) = Inr (int p) \<and>
              version_compatible (Some m) cv =
                (case py_int a of Inl e \<Rightarrow> Inl ValueError
                 | Inr major \<Rightarrow>
                     (case py_int b of Inl e \<Rightarrow> Inl ValueError
                      | Inr minor \<Rightarrow> Inr (triple_ge (major, minor, int p) cv)))" by blast
qed

lemma precise_log_segments:
  "py_split (CHR ''-'') ''10.0.1a-MariaDB-mariadb1precise-log'' =
     [''10.0.1a'', ''MariaDB'', ''mariadb1precise'', ''log'']"
  by code_simp

lemma segments_10_0_1a:
  "py_split (CHR ''.'') ''10.0.1a'' = [''10'', ''0'', ''1a''] \<and>
   py_int ''10'' = Inr 10 \<and> py_int ''0'' = Inr 0 \<and> takeWhile is_dec ''1a'' = ''1'' \<and>
   py_int ''1'' = Inr 1"
  by code_simp

lemma segments_8: "py_split (CHR ''.'') ''8'' = [''8'']"
  by code_simp

lemma segments_5_7_x:
  "py_split (CHR ''.'') ''5.7.x'' = [''5'', ''7'', ''x''] \<and> takeWhile is_dec ''x'' = []"
  by code_simp

theorem version_resolution_total_witness:
  "get_metadata [''log'', ''standard'', ''debug'', ''valgrind'', ''embedded'']
     ''10.0.1a-MariaDB-mariadb1precise-log''
     = \<lparr>version = ''10.0.1a'', flavor = ''MariaDB'', build = ''log''\<rparr> \<and>
   version_compatible
     (Some \<lparr>version = ''10.0.1a'', flavor = ''MariaDB'', build = ''log''\<rparr>) (5, 6, 6) = Inr True \<and>
   version_compatible
     (Some \<lparr>version = ''8'', flavor = ''MySQL'', build = ''unspecified''\<rparr>) (5, 6, 6)
     = Inl IndexError \<and>
   version_compatible
     (Some \<lparr>version = ''5.7.x'', flavor = ''MySQL'', build = ''unspecified''\<rparr>) (5, 6, 6)
     = Inl AttributeError"
proof -
  note t = version_resolution_total [of "[''log'', ''standard'', ''debug'', ''valgrind'', ''embedded'']"
      "''10.0.1a-MariaDB-mariadb1precise-log''"
      "\<lparr>version = ''10.0.1a'', flavor = ''MariaDB'', build = ''log''\<rparr>" "(5, 6, 6)"
      "''10''" "''0''" "''1a''" "[]"]
  from t have "flavor (get_metadata [''log'', ''standard'', ''debug'', ''valgrind'', ''embedded'']
     ''10.0.1a-MariaDB-mariadb1precise-log'') = ''MariaDB'' \<and>
     build (get_metadata [''log'', ''standard'', ''debug'', ''valgrind'', ''embedded'']
     ''10.0.1a-MariaDB-mariadb1precise-log'') = ''log'' \<and>
     version (get_metadata [''log'', ''standard'', ''debug'', ''valgrind'', ''embedded'']
     ''10.0.1a-MariaDB-mariadb1precise-log'') = ''10.0.1a''"
    unfolding precise_log_segments by simp
  then have m: "get_metadata [''log'', ''standard'', ''debug'', ''valgrind'', ''embedded'']
     ''10.0.1a-MariaDB-mariadb1precise-log''
     = \<lparr>version = ''10.0.1a'', flavor = ''MariaDB'', build = ''log''\<rparr>"
    by (cases "get_metadata [''log'', ''standard'', ''debug'', ''valgrind'', ''embedded'']
     ''10.0.1a-MariaDB-mariadb1precise-log''") simp
  from t segments_10_0_1a have c: "version_compatible
     (Some \<lparr>version = ''10.0.1a'', flavor = ''MariaDB'', build = ''log''\<rparr>) (5, 6, 6) = Inr True"
    by (simp add: triple_ge_def)
  from version_resolution_total [of _ _
      "\<lparr>version = ''8'', flavor = ''MySQL'', build = ''unspecified''\<rparr>" "(5, 6, 6)"] segments_8
  have i: "version_compatible
     (Some \<lparr>version = ''8'', flavor = ''MySQL'', build = ''unspecified''\<rparr>) (5, 6, 6)
     = Inl IndexError"
    by simp
  from version_resolution_total [of _ _
      "\<lparr>version = ''5.7.x'', flavor = ''MySQL'', build = ''unspecified''\<rparr>" "(5, 6, 6)"
      "''5''" "''7''" "''x''" "[]"] segments_5_7_x
  have a: "version_compatible
     (Some \<lparr>version = ''5.7.x'', flavor = ''MySQL'', build = ''unspecified''\<rparr>) (5, 6, 6)
     = Inl AttributeError"
    by simp
  from m c i a show ?thesis by simp
qed


theorem version_two_segments_counterexample:
  "version_compatible (Some (get_metadata [''log''] ''5.7'')) (5, 7, 0) = Inl IndexError"
  by code_simp

subsection \<open>Server identity\<close>

text \<open>
  C5, as the code has it. The key of the query-cache store is the defaults file when
  one is configured; otherwise host and socket path when a socket is configured;
  otherwise host and port when the port is not 0; otherwise the host alone.
\<close>

theorem host_key_priority:
  "(defaults_file c \<noteq> [] \<longrightarrow> get_host_key c = defaults_file c) \<and>
   (defaults_file c = [] \<and> mysql_sock c \<noteq> [] \<longrightarrow>
      get_host_key c = host c @ '':'' @ mysql_sock c) \<and>
   (defaults_file c = [] \<and> mysql_sock c = [] \<and> port c \<noteq> 0 \<longrightarrow>
      get_host_key c = host c @ '':'' @ py_str_int (port c)) \<and>
   (defaults_file c = [] \<and> mysql_sock c = [] \<and> port c = 0 \<longrightarrow> get_host_key c = host c)"
  by (simp add: get_host_key_def colon_join_def)

theorem host_key_priority_witness:
  "get_host_key \<lparr>host = ''db'', port = 3306, mysql_sock = [], defaults_file = ''/etc/my.cnf''\<rparr>
     = ''/etc/my.cnf'' \<and>
   get_host_key \<lparr>host = ''db'', port = 3306, mysql_sock = ''/tmp/mysql.sock'', defaults_file = []\<rparr>
     = ''db:/tmp/mysql.sock'' \<and>
   get_host_key \<lparr>host = ''db'', port = 3306, mysql_sock = [], defaults_file = []\<rparr> = ''db:3306'' \<and>
   get_host_key \<lparr>host = ''db'', port = 0, mysql_sock = [], defaults_file = []\<rparr> = ''db''"
  using host_key_priority [of "\<lparr>host = ''db'', port = 3306, mysql_sock = [], defaults_file = ''/etc/my.cnf''\<rparr>"]
    host_key_priority [of "\<lparr>host = ''db'', port = 3306, mysql_sock = ''/tmp/mysql.sock'', defaults_file = []\<rparr>"]
    host_key_priority [of "\<lparr>host = ''db'', port = 3306, mysql_sock = [], defaults_file = []\<rparr>"]
    host_key_priority [of "\<lparr>host = ''db'', port = 0, mysql_sock = [], defaults_file = []\<rparr>"]
  by (simp add: str_3306)

theorem host_key_port_first_counterexample:
  "get_host_key \<lparr>host = ''db'', port = 3306, mysql_sock = ''/tmp/mysql.sock'', defaults_file = []\<rparr>
     = ''db:/tmp/mysql.sock'' \<and>
   get_host_key \<lparr>host = ''db'', port = 3306, mysql_sock = [], defaults_file = ''/etc/my.cnf''\<rparr>
     = ''/etc/my.cnf''"
  by (simp add: get_host_key_def colon_join_def)

subsection \<open>Replication health\<close>

lemma vc57:
  "version_compatible (Some \<lparr>version = ''5.7.20'', flavor = ''MySQL'', build = ''log''\<rparr>) (5, 7, 0)
     = Inr True"
  by code_simp

lemma vc55:
  "version_compatible (Some \<lparr>version = ''5.5.62'', flavor = ''MySQL'', build = ''log''\<rparr>) (5, 7, 0)
     = Inr False"
  by code_simp

lemma says_examples:
  "says ''yes'' ''Yes''" "\<not> says ''yes'' ''No''" "says ''on'' ''ON''" "\<not> says ''off'' ''ON''"
  by code_simp+

text \<open>
  C2. With the server at 5.7.0 or later and both thread dictionaries collected, the
  status is OK exactly when both report a running thread, CRITICAL exactly when
  neither does, and WARNING exactly when they differ. With neither dictionary
  collected, the legacy variable reading "on" and the host not a source, the status
  is OK, whatever the version comparison answered.
\<close>

theorem threads_decide_status:
  "(version_compatible md (5, 7, 0) = Inr True \<and>
    slave_io_running r = Some io \<and> slave_sql_running r = Some sql \<longrightarrow>
      (\<exists>st. replication_status md r = Inr st \<and>
         (st = OK \<longleftrightarrow> any_yes (Some io) = Some True \<and> any_yes (Some sql) = Some True) \<and>
         (st = CRITICAL \<longleftrightarrow> any_yes (Some io) = Some False \<and> any_yes (Some sql) = Some False) \<and>
         (st = WARNING \<longleftrightarrow> any_yes (Some io) \<noteq> any_yes (Some sql)))) \<and>
   (version_compatible md (5, 7, 0) = Inr b \<and>
    slave_io_running r = None \<and> slave_sql_running r = None \<and>
    slave_running r = Some sr \<and> says ''on'' sr \<and>
    is_master (slaves r) (master_host r) = Inr False \<longrightarrow>
      replication_status md r = Inr OK)"
proof (intro conjI impI)
  assume a: "version_compatible md (5, 7, 0) = Inr True \<and>
    slave_io_running r = Some io \<and> slave_sql_running r = Some sql"
  then show "\<exists>st. replication_status md r = Inr st \<and>
         (st = OK \<longleftrightarrow> any_yes (Some io) = Some True \<and> any_yes (Some sql) = Some True) \<and>
         (st = CRITICAL \<longleftrightarrow> any_yes (Some io) = Some False \<and> any_yes (Some sql) = Some False) \<and>
         (st = WARNING \<longleftrightarrow> any_yes (Some io) \<noteq> any_yes (Some sql))"
    by (auto simp: replication_status_def threads_status_def bindE_simps truthy_def
        any_yes_def Let_def)
next
  assume a: "version_compatible md (5, 7, 0) = Inr b \<and>
    slave_io_running r = None \<and> slave_sql_running r = None \<and>
    slave_running r = Some sr \<and> says ''on'' sr \<and>
    is_master (slaves r) (master_host r) = Inr False"
  then have ne: "sr \<noteq> []" and noff: "\<not> says ''off'' sr"
    by (auto simp: says_def py_strip_def strip_where_def py_lower_def)
  from a ne noff show "replication_status md r = Inr OK"
    by (cases b)
       (simp_all add: replication_status_def threads_status_def bindE_simps truthy_def
        any_yes_def Let_def)
qed

theorem threads_decide_status_witness:
  "replication_status
     (Some \<lparr>version = ''5.7.20'', flavor = ''MySQL'', build = ''log''\<rparr>)
     \<lparr>slave_running = None, binlog_running = False, slaves = Some 0,
      slave_io_running = Some [(''channel:default'', ''Yes'')],
      slave_sql_running = Some [(''channel:default'', ''No'')],
      master_host = Some ''primary''\<rparr> = Inr WARNING \<and>
   replication_status
     (Some \<lparr>version = ''5.5.62'', flavor = ''MySQL'', build = ''log''\<rparr>)
     \<lparr>slave_running = Some ''ON'', binlog_running = False, slaves = Some 0,
      slave_io_running = None, slave_sql_running = None,
      master_host = Some ''primary''\<rparr> = Inr OK"
  using
    threads_decide_status [of
      "Some \<lparr>version = ''5.7.20'', flavor = ''MySQL'', build = ''log''\<rparr>"
      "\<lparr>slave_running = None, binlog_running = False, slaves = Some 0,
        slave_io_running = Some [(''channel:default'', ''Yes'')],
        slave_sql_running = Some [(''channel:default'', ''No'')],
        master_host = Some ''primary''\<rparr>"
      "[(''channel:default'', ''Yes'')]" "[(''channel:default'', ''No'')]" True "[]"]
    threads_decide_status [of
      "Some \<lparr>version = ''5.5.62'', flavor = ''MySQL'', build = ''log''\<rparr>"
      "\<lparr>slave_running = Some ''ON'', binlog_running = False, slaves = Some 0,
        slave_io_running = None, slave_sql_running = None,
        master_host = Some ''primary''\<rparr>"
      "[]" "[]" False "''ON''"]
  by (auto simp: vc57 vc55 says_examples any_yes_def is_master_def)

text \<open>
  C10. The report of the replication block returns exactly when the classifier does,
  and raises what the classifier raises. The legacy gauge it emits beside the status
  is 1 when the classifier says OK and 0 when it says WARNING, CRITICAL or UNKNOWN: an
  unknown state and a failing one give the same gauge.
\<close>

theorem gauge_one_iff_ok:
  "(replication_report md r = Inr (1, OK) \<longleftrightarrow> replication_status md r = Inr OK) \<and>
   (replication_report md r = Inr (0, WARNING) \<longleftrightarrow> replication_status md r = Inr WARNING) \<and>
   (replication_report md r = Inr (0, CRITICAL) \<longleftrightarrow> replication_status md r = Inr CRITICAL) \<and>
   (replication_report md r = Inr (0, UNKNOWN) \<longleftrightarrow> replication_status md r = Inr UNKNOWN) \<and>
   (replication_report md r = Inl e \<longleftrightarrow> replication_status md r = Inl e) \<and>
   (replication_report md r = Inr (g, st) \<longleftrightarrow>
      replication_status md r = Inr st \<and> g = (if st = OK then 1 else 0))"
  by (cases "replication_status md r")
     (auto simp: replication_report_def bindE_simps slave_running_gauge_def)

lemma status_ok:
  "replication_status
     (Some \<lparr>version = ''5.7.20'', flavor = ''MySQL'', build = ''log''\<rparr>)
     \<lparr>slave_running = None, binlog_running = False, slaves = Some 0,
      slave_io_running = Some [(''channel:default'', ''Yes'')],
      slave_sql_running = Some [(''channel:default'', ''Yes'')],
      master_host = Some ''primary''\<rparr> = Inr OK"
  by code_simp

lemma status_warning:
  "replication_status
     (Some \<lparr>version = ''5.7.20'', flavor = ''MySQL'', build = ''log''\<rparr>)
     \<lparr>slave_running = None, binlog_running = False, slaves = Some 0,
      slave_io_running = Some [(''channel:default'', ''Yes'')],
      slave_sql_running = Some [(''channel:default'', ''No'')],
      master_host = Some ''primary''\<rparr> = Inr WARNING"
  by code_simp

lemma status_critical:
  "replication_status
     (Some \<lparr>version = ''5.7.20'', flavor = ''MySQL'', build = ''log''\<rparr>)
     \<lparr>slave_running = None, binlog_running = False, slaves = Some 0,
      slave_io_running = Some [(''channel:default'', ''No'')],
      slave_sql_running = Some [(''channel:default'', ''No'')],
      master_host = Some ''primary''\<rparr> = Inr CRITICAL"
  by code_simp

lemma status_unknown:
  "replication_status
     (Some \<lparr>version = ''5.7.20'', flavor = ''MySQL'', build = ''log''\<rparr>)
     \<lparr>slave_running = None, binlog_running = False, slaves = Some 0,
      slave_io_running = None, slave_sql_running = None,
      master_host = Some ''primary''\<rparr> = Inr UNKNOWN"
  by code_simp

lemma status_raises:
  "replication_status
     (Some \<lparr>version = ''5.7.20'', flavor = ''MySQL'', build = ''log''\<rparr>)
     \<lparr>slave_running = None, binlog_running = False, slaves = None,
      slave_io_running = None, slave_sql_running = None,
      master_host = Some ''primary''\<rparr> = Inl TypeError"
  by code_simp

theorem gauge_one_iff_ok_witness:
  "replication_report
     (Some \<lparr>version = ''5.7.20'', flavor = ''MySQL'', build = ''log''\<rparr>)
     \<lparr>slave_running = None, binlog_running = False, slaves = Some 0,
      slave_io_running = Some [(''channel:default'', ''Yes'')],
      slave_sql_running = Some [(''channel:default'', ''Yes'')],
      master_host = Some ''primary''\<rparr> = Inr (1, OK) \<and>
   replication_report
     (Some \<lparr>version = ''5.7.20'', flavor = ''MySQL'', build = ''log''\<rparr>)
     \<lparr>slave_running = None, binlog_running = False, slaves = Some 0,
      slave_io_running = Some [(''channel:default'', ''Yes'')],
      slave_sql_running = Some [(''channel:default'', ''No'')],
      master_host = Some ''primary''\<rparr> = Inr (0, WARNING) \<and>
   replication_report
     (Some \<lparr>version = ''5.7.20'', flavor = ''MySQL'', build = ''log''\<rparr>)
     \<lparr>slave_running = None, binlog_running = False, slaves = Some 0,
      slave_io_running = Some [(''channel:default'', ''No'')],
      slave_sql_running = Some [(''channel:default'', ''No'')],
      master_host = Some ''primary''\<rparr> = Inr (0, CRITICAL) \<and>
   replication_report
     (Some \<lparr>version = ''5.7.20'', flavor = ''MySQL'', build = ''log''\<rparr>)
     \<lparr>slave_running = None, binlog_running = False, slaves = Some 0,
      slave_io_running = None, slave_sql_running = None,
      master_host = Some ''primary''\<rparr> = Inr (0, UNKNOWN) \<and>
   replication_report
     (Some \<lparr>version = ''5.7.20'', flavor = ''MySQL'', build = ''log''\<rparr>)
     \<lparr>slave_running = None, binlog_running = False, slaves = None,
      slave_io_running = None, slave_sql_running = None,
      master_host = Some ''primary''\<rparr> = Inl TypeError"
  using status_ok status_warning status_critical status_unknown status_raises
  by (simp add: gauge_one_iff_ok)

subsection \<open>The parser of the InnoDB status\<close>

lemma bindE_Inr_iff: "bindE m f = Inr y \<longleftrightarrow> (\<exists>x. m = Inr x \<and> f x = Inr y)"
  by (cases m) (simp_all add: bindE_def)

lemma preservedD: "preserved g f \<Longrightarrow> f s = Inr s' \<Longrightarrow> g s' = g s"
  by (simp add: preserved_def)

lemma preserved_seqE: "list_all (preserved g) fs \<Longrightarrow> preserved g (seqE fs)"
proof (induction fs)
  case Nil
  show ?case by (simp add: preserved_def)
next
  case (Cons f fs)
  then have f: "preserved g f" and fs: "preserved g (seqE fs)" by simp_all
  show ?case
    unfolding preserved_def
  proof (intro allI impI)
    fix s s' assume "seqE (f # fs) s = Inr s'"
    then obtain s1 where "f s = Inr s1" "seqE fs s1 = Inr s'"
      by (auto simp: bindE_Inr_iff)
    then show "g s' = g s" using preservedD [OF f] preservedD [OF fs] by metis
  qed
qed

lemma preserved_assign_long: "(\<And>v s. g (put k v s) = g s) \<Longrightarrow> preserved g (assign_long k row i)"
  by (auto simp: preserved_def assign_long_def bindE_Inr_iff)

lemma preserved_assign_const: "(\<And>v s. g (put k v s) = g s) \<Longrightarrow> preserved g (assign_const k c)"
  by (auto simp: preserved_def assign_const_def)

lemma preserved_add_const: "(\<And>v s. g (put k v s) = g s) \<Longrightarrow> preserved g (add_const k c)"
  by (auto simp: preserved_def add_const_def)

lemma preserved_add_long: "(\<And>v s. g (put k v s) = g s) \<Longrightarrow> preserved g (add_long k row i c)"
  by (auto simp: preserved_def add_long_def bindE_Inr_iff)

lemma preserved_add_long_float: "(\<And>v s. g (put k v s) = g s) \<Longrightarrow> preserved g (add_long_float k row i c)"
  by (auto simp: preserved_def add_long_float_def bindE_Inr_iff)

lemma preserved_assign_ibuf_merged:
  "(\<And>v s. g (put ''Innodb_ibuf_merged'' v s) = g s) \<Longrightarrow> preserved g assign_ibuf_merged"
  by (auto simp: preserved_def assign_ibuf_merged_def)

lemma preserved_if: "preserved g f \<Longrightarrow> preserved g h \<Longrightarrow> preserved g (if c then f else h)"
  by simp

lemma put_other [simp]: "k \<noteq> k0 \<Longrightarrow> results (put k v s) k0 = results s k0"
  by (simp add: put_def)

lemma put_fields [simp]:
  "buffer_id (put k v s) = buffer_id s" "txn_seen (put k v s) = txn_seen s"
  "prev_line (put k v s) = prev_line s" "warnings (put k v s) = warnings s"
  by (simp_all add: put_def)

lemmas preserved_intros = preserved_seqE preserved_assign_long preserved_assign_const preserved_add_const
  preserved_add_long preserved_add_long_float preserved_assign_ibuf_merged


lemma warn_fields [simp]:
  "results (warn l s) = results s" "buffer_id (warn l s) = buffer_id s"
  "txn_seen (warn l s) = txn_seen s" "prev_line (warn l s) = prev_line s"
  by (simp_all add: warn_def)

text \<open>What an observation must satisfy to survive every branch outside the buffer pool.\<close>

lemma semaphores_preserved:
  assumes "\<And>k v s. k \<notin> set aggregate_keys \<Longrightarrow> g (put k v s) = g s"
    and "semaphores line row s = Some (Inr s')"
  shows "g s' = g s"
  using assms(2)
  by (auto simp: semaphores_def aggregate_keys_def simp del: seqE.simps split: if_splits
      elim!: preservedD [where g = g, rotated] intro!: preserved_intros assms(1))


lemma transactions_preserved:
  assumes "\<And>k v s. k \<notin> set aggregate_keys \<Longrightarrow> g (put k v s) = g s"
    and "\<And>b s. g (s\<lparr>txn_seen := b\<rparr>) = g s"
    and "transactions line row s = Some (Inr s')"
  shows "g s' = g s"
  using assms(3)
  by (auto simp: transactions_def aggregate_keys_def assms(2) simp del: seqE.simps
      split: if_splits
      elim!: preservedD [where g = g, rotated] intro!: preserved_intros assms(1))

lemma try_assign_long_preserved:
  "(\<And>v s. g (put k v s) = g s) \<Longrightarrow> try_assign_long k row i s = (e, s') \<Longrightarrow> g s' = g s"
  by (auto simp: try_assign_long_def split: sum.splits)

lemma try_assign_sum_preserved:
  "(\<And>v s. g (put k v s) = g s) \<Longrightarrow> try_assign_sum k row is s = (e, s') \<Longrightarrow> g s' = g s"
  by (auto simp: try_assign_sum_def split: sum.splits)

lemma try_seq2_preserved:
  assumes "\<And>s e s'. f1 s = (e, s') \<Longrightarrow> g s' = g s"
    and "\<And>s e s'. f2 s = (e, s') \<Longrightarrow> g s' = g s"
    and "try_seq [f1, f2] s = (e, s')"
  shows "g s' = g s"
proof (cases "f1 s")
  case (Pair e1 s1)
  note 1 = assms(1) [OF Pair]
  show ?thesis
  proof (cases e1)
    case None
    obtain e2 s2 where 2: "f2 s1 = (e2, s2)" by (cases "f2 s1")
    with Pair None assms(3) have "s' = s2" by (cases e2) auto
    with assms(2) [OF 2] 1 show ?thesis by simp
  next
    case (Some a)
    with Pair assms(3) have "s' = s1" by simp
    with 1 show ?thesis by simp
  qed
qed

lemma pending_body_preserved:
  assumes r: "\<And>v s. g (put ''Innodb_pending_normal_aio_reads'' v s) = g s"
    and w: "\<And>v s. g (put ''Innodb_pending_normal_aio_writes'' v s) = g s"
    and "\<And>l s. g (warn l s) = g s"
    and "pending_normal_aio_body line row s = (e, s')"
  shows "g s' = g s"
proof -
  have rw: "\<And>i j s e s'. pending_reads_writes row i j s = (e, s') \<Longrightarrow> g s' = g s"
    unfolding pending_reads_writes_def
    by (erule try_seq2_preserved [rotated 2]) (erule try_assign_long_preserved [OF r]
        try_assign_long_preserved [OF w])+
  have sm: "\<And>is js s e s'.
      try_seq [try_assign_sum ''Innodb_pending_normal_aio_reads'' row is,
               try_assign_sum ''Innodb_pending_normal_aio_writes'' row js] s = (e, s')
      \<Longrightarrow> g s' = g s"
    by (erule try_seq2_preserved [rotated 2]) (erule try_assign_sum_preserved [OF r]
        try_assign_sum_preserved [OF w])+
  from assms(4) show ?thesis
    unfolding pending_normal_aio_body_def
    by (auto split: if_splits dest: rw sm simp: assms(3) simp del: try_seq.simps)
qed

lemma pending_keys_preserved:
  assumes r: "\<And>v s. g (put ''Innodb_pending_normal_aio_reads'' v s) = g s"
    and w: "\<And>v s. g (put ''Innodb_pending_normal_aio_writes'' v s) = g s"
    and wn: "\<And>l s. g (warn l s) = g s"
    and "pending_normal_aio line row s = Inr s'"
  shows "g s' = g s"
proof (cases "pending_normal_aio_body line row s")
  case (Pair e s1)
  from pending_body_preserved [of g, OF r w wn Pair] have "g s1 = g s" by simp
  with Pair assms(4) show ?thesis
    by (auto simp: pending_normal_aio_def wn split: option.splits if_splits)
qed

lemma pending_preserved:
  assumes "\<And>k v s. k \<notin> set aggregate_keys \<Longrightarrow> g (put k v s) = g s"
    and "\<And>l s. g (warn l s) = g s"
    and "pending_normal_aio line row s = Inr s'"
  shows "g s' = g s"
  by (rule pending_keys_preserved [of g, OF _ _ assms(2) assms(3)])
     (simp_all add: assms(1) aggregate_keys_def)

lemma pending_preserved_fun:
  assumes "\<And>k v s. k \<notin> set aggregate_keys \<Longrightarrow> g (put k v s) = g s"
    and "\<And>l s. g (warn l s) = g s"
  shows "preserved g (pending_normal_aio line row)"
  unfolding preserved_def using pending_preserved [of g, OF assms] by blast

lemma file_io_preserved:
  assumes "\<And>k v s. k \<notin> set aggregate_keys \<Longrightarrow> g (put k v s) = g s"
    and "\<And>l s. g (warn l s) = g s"
    and "file_io line row s = Some (Inr s')"
  shows "g s' = g s"
  using assms(3)
  by (auto simp: file_io_def aggregate_keys_def simp del: seqE.simps split: if_splits
      elim!: preservedD [where g = g, rotated]
      intro!: preserved_intros assms(1) pending_preserved_fun [OF assms(1) assms(2)])

lemma insert_buffer_preserved:
  assumes "\<And>k v s. k \<notin> set aggregate_keys \<Longrightarrow> g (put k v s) = g s"
    and "insert_buffer line row s = Some (Inr s')"
  shows "g s' = g s"
  using assms(2)
  by (auto simp: insert_buffer_def aggregate_keys_def simp del: seqE.simps split: if_splits
      elim!: preservedD [where g = g, rotated] intro!: preserved_intros assms(1))

lemma log_section_preserved:
  assumes "\<And>k v s. k \<notin> set aggregate_keys \<Longrightarrow> g (put k v s) = g s"
    and "log_section line row s = Some (Inr s')"
  shows "g s' = g s"
  using assms(2)
  by (auto simp: log_section_def aggregate_keys_def simp del: seqE.simps split: if_splits
      elim!: preservedD [where g = g, rotated] intro!: preserved_intros assms(1))

lemma memory_section_preserved:
  assumes "\<And>k v s. k \<notin> set aggregate_keys \<Longrightarrow> g (put k v s) = g s"
    and "memory_section line row s = Some (Inr s')"
  shows "g s' = g s"
  using assms(2)
  by (auto simp: memory_section_def aggregate_keys_def simp del: seqE.simps split: if_splits
      elim!: preservedD [where g = g, rotated] intro!: preserved_intros assms(1))

lemma row_operations_preserved:
  assumes "\<And>k v s. k \<notin> set aggregate_keys \<Longrightarrow> g (put k v s) = g s"
    and "row_operations line row s = Some (Inr s')"
  shows "g s' = g s"
  using assms(2)
  by (auto simp: row_operations_def aggregate_keys_def simp del: seqE.simps split: if_splits
      elim!: preservedD [where g = g, rotated] intro!: preserved_intros assms(1))

lemma buffer_pool_scoped:
  "buffer_id s \<noteq> - 1 \<Longrightarrow> buffer_pool line row s = Some (Inr s') \<Longrightarrow> s' = s"
  by (auto simp: buffer_pool_def split: if_splits)

lemma buffer_pool_preserved:
  assumes "\<And>k v s. g (put k v s) = g s"
    and "buffer_pool line row s = Some (Inr s')"
  shows "g s' = g s"
  using assms(2)
  by (auto simp: buffer_pool_def simp del: seqE.simps split: if_splits
      elim!: preservedD [where g = g, rotated] intro!: preserved_intros assms(1))


lemma txn_seen_update_fields [simp]:
  "results (s\<lparr>txn_seen := b\<rparr>) = results s" "buffer_id (s\<lparr>txn_seen := b\<rparr>) = buffer_id s"
  by simp_all

lemma dispatch_preserved:
  assumes p: "\<And>k v s. g (put k v s) = g s"
    and t: "\<And>b s. g (s\<lparr>txn_seen := b\<rparr>) = g s"
    and w: "\<And>l s. g (warn l s) = g s"
    and d: "dispatch line row s = Inr s'"
  shows "g s' = g s"
proof -
  note secs =
    semaphores_preserved [of g line row s s', OF p]
    transactions_preserved [of g line row s s', OF p t]
    file_io_preserved [of g line row s s', OF p w]
    insert_buffer_preserved [of g line row s s', OF p]
    log_section_preserved [of g line row s s', OF p]
    memory_section_preserved [of g line row s s', OF p]
    buffer_pool_preserved [of g line row s s', OF p]
    row_operations_preserved [of g line row s s', OF p]
  from d secs show ?thesis
    unfolding dispatch_def by (auto split: option.splits)
qed

lemma dispatch_scoped:
  assumes p: "\<And>k v s. k \<notin> set aggregate_keys \<Longrightarrow> g (put k v s) = g s"
    and t: "\<And>b s. g (s\<lparr>txn_seen := b\<rparr>) = g s"
    and w: "\<And>l s. g (warn l s) = g s"
    and b: "buffer_id s \<noteq> - 1"
    and d: "dispatch line row s = Inr s'"
  shows "g s' = g s"
proof -
  note secs =
    semaphores_preserved [of g line row s s', OF p]
    transactions_preserved [of g line row s s', OF p t]
    file_io_preserved [of g line row s s', OF p w]
    insert_buffer_preserved [of g line row s s', OF p]
    log_section_preserved [of g line row s s', OF p]
    memory_section_preserved [of g line row s s', OF p]
    buffer_pool_scoped [of s line row s', OF b]
    row_operations_preserved [of g line row s s', OF p]
  from d secs show ?thesis
    unfolding dispatch_def by (auto split: option.splits)
qed

lemma dispatch_buffer_id: "dispatch line row s = Inr s' \<Longrightarrow> buffer_id s' = buffer_id s"
  by (rule dispatch_preserved [where g = buffer_id]) simp_all

lemma set_buffer_id_results: "set_buffer_id line row s = Inr s1 \<Longrightarrow> results s1 = results s"
  by (auto simp: set_buffer_id_def bindE_Inr_iff split: if_splits)

lemma innodb_line_scoped:
  assumes "innodb_line s raw = Inr s'" "buffer_id s' \<noteq> - 1" "k \<in> set aggregate_keys"
  shows "results s' k = results s k"
proof -
  from assms(1) obtain s1 s2 where
    1: "set_buffer_id (py_strip raw) (tokenize (py_strip raw)) s = Inr s1" and
    2: "dispatch (py_strip raw) (tokenize (py_strip raw)) s1 = Inr s2" and
    3: "s' = s2\<lparr>prev_line := py_strip raw\<rparr>"
    by (auto simp: innodb_line_def Let_def bindE_Inr_iff)
  from 2 have "buffer_id s2 = buffer_id s1" by (rule dispatch_buffer_id)
  with 3 assms(2) have b: "buffer_id s1 \<noteq> - 1" by simp
  have "results s2 k = results s1 k"
    by (rule dispatch_scoped [where g = "\<lambda>s. results s k", OF _ _ _ b 2])
       (use assms(3) in \<open>auto simp: put_def\<close>)
  with 3 set_buffer_id_results [OF 1] show ?thesis by simp
qed

lemmas section_defs = semaphores_def transactions_def file_io_def insert_buffer_def
  log_section_def memory_section_def buffer_pool_def row_operations_def

lemmas text_defs = py_find_def py_strip_def strip_where_def py_isspace_def tokenize_def
  re_split_blanks_def strip_char_def py_startswith_def

lemmas int_defs = long_at_def py_index_def py_int_def signed_body_def int_isspace_def digitpart_def
  is_dec_def dec_val_def

lemma pool_line:
  "innodb_line s ''---BUFFER POOL 1'' =
     Inr (s\<lparr>buffer_id := 1, prev_line := ''---BUFFER POOL 1''\<rparr>)"
  by (simp add: innodb_line_def set_buffer_id_def dispatch_def section_defs text_defs int_defs
      bindE_simps Let_def)

lemma pages_line:
  "buffer_id s \<noteq> - 1 \<Longrightarrow>
   innodb_line s ''Database pages 500'' = Inr (s\<lparr>prev_line := ''Database pages 500''\<rparr>)"
  by (simp add: innodb_line_def set_buffer_id_def dispatch_def section_defs text_defs int_defs
      bindE_simps Let_def)



lemma lsn_line:
  "innodb_line s ''Log sequence number 272588624'' =
     Inr (put ''Innodb_lsn_current'' 272588624 s\<lparr>prev_line := ''Log sequence number 272588624''\<rparr>)"
  by (simp add: innodb_line_def set_buffer_id_def dispatch_def section_defs text_defs int_defs
      assign_long_def bindE_simps Let_def)

lemma lines1: "py_splitlines ''Log sequence number 272588624'' = [''Log sequence number 272588624'']"
  by (simp add: py_splitlines_def is_linebreak_def)

lemma str1: "py_str_int 272588624 = ''272588624''"
  by (simp add: py_str_int_def digit_char_def)

lemma str0: "py_str_int 0 = ''0''"
  by (simp add: py_str_int_def digit_char_def)


lemma empty_lines: "py_splitlines [] = []"
  by (simp add: py_splitlines_def)

text \<open>
  C3, at a dump where a counter is missing. The checkpoint age is the difference of
  the two log sequence numbers, but it is not left out when one of them was not
  collected: a dump with only \<open>Log sequence number\<close> gives the age 272588624 and
  stores \<open>Innodb_lsn_last_checkpoint\<close> as 0, and the empty dump gives the age 0.
\<close>

theorem checkpoint_age_without_counters:
  "map_sum id (\<lambda>m. (m ''Innodb_checkpoint_age'', m ''Innodb_lsn_last_checkpoint''))
     (get_stats_from_innodb_status (StatusText ''Log sequence number 272588624''))
     = Inr (Some ''272588624'', Some ''0'') \<and>
   map_sum id (\<lambda>m. m ''Innodb_checkpoint_age'') (get_stats_from_innodb_status (StatusText []))
     = Inr (Some ''0'')"
  by (simp add: get_stats_from_innodb_status_def parse_innodb_status_def lines1 empty_lines
      lsn_line bindE_simps checkpoint_age_def dd_value_def dd_touch_def put_def
      initial_state_def stringify_def str1 str0 Let_def)

text \<open>
  C9. A line scanned while the current buffer pool is not -1 leaves the seven
  counters of the aggregate buffer pool as they were; in particular the two lines
  \<open>---BUFFER POOL 1\<close> and \<open>Database pages 500\<close>, scanned from any state, return
  with every counter unchanged.
\<close>

theorem per_pool_report_leaves_aggregate:
  "(innodb_line s raw = Inr s' \<and> buffer_id s' \<noteq> - 1 \<and> k \<in> set aggregate_keys \<longrightarrow>
      results s' k = results s k) \<and>
   (\<exists>t. scan_lines s [''---BUFFER POOL 1'', ''Database pages 500''] = Inr t \<and>
        results t = results s)"
proof (intro conjI impI)
  assume "innodb_line s raw = Inr s' \<and> buffer_id s' \<noteq> - 1 \<and> k \<in> set aggregate_keys"
  then show "results s' k = results s k" using innodb_line_scoped by blast
next
  show "\<exists>t. scan_lines s [''---BUFFER POOL 1'', ''Database pages 500''] = Inr t \<and>
        results t = results s"
    by (simp add: pool_line pages_line bindE_simps)
qed

lemma pages_line_scoped:
  "innodb_line
     \<lparr>results = [''Innodb_buffer_pool_pages_data'' \<mapsto> 1696503], txn_seen = False,
      prev_line = ''---BUFFER POOL 1'', buffer_id = 1, warnings = []\<rparr>
     ''Database pages 500'' =
   Inr \<lparr>results = [''Innodb_buffer_pool_pages_data'' \<mapsto> 1696503], txn_seen = False,
        prev_line = ''Database pages 500'', buffer_id = 1, warnings = []\<rparr>"
  by (simp add: pages_line)

theorem per_pool_report_leaves_aggregate_witness:
  "innodb_line
     \<lparr>results = [''Innodb_buffer_pool_pages_data'' \<mapsto> 1696503], txn_seen = False,
      prev_line = ''---BUFFER POOL 1'', buffer_id = 1, warnings = []\<rparr>
     ''Database pages 500'' =
   Inr \<lparr>results = [''Innodb_buffer_pool_pages_data'' \<mapsto> 1696503], txn_seen = False,
        prev_line = ''Database pages 500'', buffer_id = 1, warnings = []\<rparr> \<and>
   ''Innodb_buffer_pool_pages_data'' \<in> set aggregate_keys \<and>
   results \<lparr>results = [''Innodb_buffer_pool_pages_data'' \<mapsto> 1696503], txn_seen = False,
        prev_line = ''Database pages 500'', buffer_id = 1, warnings = []\<rparr>
     ''Innodb_buffer_pool_pages_data'' = Some 1696503"
  using per_pool_report_leaves_aggregate [of
      "\<lparr>results = [''Innodb_buffer_pool_pages_data'' \<mapsto> 1696503], txn_seen = False,
        prev_line = ''---BUFFER POOL 1'', buffer_id = 1, warnings = []\<rparr>"
      "''Database pages 500''"
      "\<lparr>results = [''Innodb_buffer_pool_pages_data'' \<mapsto> 1696503], txn_seen = False,
        prev_line = ''Database pages 500'', buffer_id = 1, warnings = []\<rparr>"
      "''Innodb_buffer_pool_pages_data''"]
    pages_line_scoped
  by (simp add: aggregate_keys_def)

lemma mutex_line:
  "innodb_line s ''Mutex spin waits 10, rounds 20'' = Inl IndexError"
  by (simp add: innodb_line_def set_buffer_id_def dispatch_def section_defs text_defs int_defs
      assign_long_def bindE_simps Let_def)

lemma mutex_lines: "py_splitlines ''Mutex spin waits 10, rounds 20'' = [''Mutex spin waits 10, rounds 20'']"
  by (simp add: py_splitlines_def is_linebreak_def)

theorem short_mutex_line_counterexample:
  "get_stats_from_innodb_status (StatusText ''Mutex spin waits 10, rounds 20'') = Inl IndexError"
  by (simp add: get_stats_from_innodb_status_def parse_innodb_status_def mutex_lines mutex_line
      bindE_simps)

lemma find_from_range: "find_from p s i = - 1 \<or> i \<le> find_from p s i"
proof (induction s arbitrary: i)
  case Nil
  show ?case by simp
next
  case (Cons c cs)
  from Cons [of "i + 1"] show ?case by auto
qed

lemma py_find_zero: "py_find s p = 0 \<Longrightarrow> prefix p s"
proof (cases s)
  case Nil
  assume "py_find s p = 0"
  with Nil show ?thesis by (simp add: py_find_def split: if_splits)
next
  case (Cons c cs)
  assume a: "py_find s p = 0"
  show ?thesis
  proof (rule ccontr)
    assume n: "\<not> prefix p s"
    with a Cons have "find_from p cs 1 = 0" by (simp add: py_find_def)
    with find_from_range [of p cs 1] show False by simp
  qed
qed

lemma long_at_error: "i < length row \<Longrightarrow> long_at row i = Inl e \<Longrightarrow> e = ValueError"
  by (auto simp: long_at_def py_index_def bindE_simps dest: py_int_error)

lemma sum_long_error:
  "\<forall>i \<in> set is. i < length row \<Longrightarrow> sum_long row is = Inl e \<Longrightarrow> e = ValueError"
proof (induction "is")
  case Nil
  then show ?case by simp
next
  case (Cons i "is")
  then show ?case
    by (cases "long_at row i"; cases "sum_long row is")
       (auto simp: bindE_simps dest: long_at_error)
qed

lemma try_assign_long_result:
  "try_assign_long k row i s = (e, s') \<Longrightarrow>
     warnings s' = warnings s \<and> (i < length row \<longrightarrow> e = None \<or> e = Some ValueError)"
  by (auto simp: try_assign_long_def split: sum.splits dest: long_at_error)

lemma try_assign_sum_result:
  "try_assign_sum k row is s = (e, s') \<Longrightarrow>
     warnings s' = warnings s \<and>
     ((\<forall>i \<in> set is. i < length row) \<longrightarrow> e = None \<or> e = Some ValueError)"
  by (auto simp: try_assign_sum_def split: sum.splits dest: sum_long_error)

lemma pending_reads_writes_result:
  assumes "pending_reads_writes row i j s = (e, s')" "i < length row" "j < length row"
  shows "warnings s' = warnings s \<and> (e = None \<or> e = Some ValueError)"
proof -
  obtain e1 s1 where 1: "try_assign_long ''Innodb_pending_normal_aio_reads'' row i s = (e1, s1)"
    by (cases "try_assign_long ''Innodb_pending_normal_aio_reads'' row i s")
  obtain e2 s2 where 2: "try_assign_long ''Innodb_pending_normal_aio_writes'' row j s1 = (e2, s2)"
    by (cases "try_assign_long ''Innodb_pending_normal_aio_writes'' row j s1")
  from try_assign_long_result [OF 1] try_assign_long_result [OF 2] assms 1 2
  show ?thesis
    by (cases e1; cases e2) (auto simp: pending_reads_writes_def)
qed

lemma pending_sums_result:
  assumes "try_seq [try_assign_sum ''Innodb_pending_normal_aio_reads'' row is,
                    try_assign_sum ''Innodb_pending_normal_aio_writes'' row js] s = (e, s')"
    "\<forall>i \<in> set is. i < length row" "\<forall>i \<in> set js. i < length row"
  shows "warnings s' = warnings s \<and> (e = None \<or> e = Some ValueError)"
proof -
  obtain e1 s1 where 1: "try_assign_sum ''Innodb_pending_normal_aio_reads'' row is s = (e1, s1)"
    by (cases "try_assign_sum ''Innodb_pending_normal_aio_reads'' row is s")
  obtain e2 s2 where 2: "try_assign_sum ''Innodb_pending_normal_aio_writes'' row js s1 = (e2, s2)"
    by (cases "try_assign_sum ''Innodb_pending_normal_aio_writes'' row js s1")
  from try_assign_sum_result [OF 1] try_assign_sum_result [OF 2] assms 1 2
  show ?thesis
    by (cases e1; cases e2) auto
qed

lemma pending_body_result:
  assumes "pending_normal_aio_body line row s = (e, s')"
  shows "(e = None \<or> e = Some ValueError) \<and>
         (warnings s' = warnings s \<or> (e = None \<and> warnings s' = warnings s @ [line]))"
  using assms unfolding pending_normal_aio_body_def
  by (auto split: if_splits simp: warn_def simp del: try_seq.simps
      dest!: pending_reads_writes_result pending_sums_result)

lemma pending_body_other_length:
  "length row \<notin> {8, 14, 16, 18, 22} \<Longrightarrow> pending_normal_aio_body line row s = (None, s)"
  by (simp add: pending_normal_aio_body_def)

lemma pending_normal_aio_total:
  "\<exists>s'. pending_normal_aio line row s = Inr s' \<and>
        (warnings s' = warnings s \<or> warnings s' = warnings s @ [line])"
proof (cases "pending_normal_aio_body line row s")
  case (Pair e s1)
  from pending_body_result [OF Pair] show ?thesis
    by (auto simp: pending_normal_aio_def Pair warn_def)
qed


lemma long_at_in_range:
  "i < length row \<Longrightarrow> long_at row i = py_int (row ! i)"
  by (simp add: long_at_def py_index_def bindE_simps)

lemma pending_pair_exact:
  assumes b: "pending_normal_aio_body line row s = pending_reads_writes row i j s"
    and i: "i < length row" and j: "j < length row"
  shows "pending_normal_aio line row s =
     Inr (case long_at row i of
            Inl e \<Rightarrow> warn line s
          | Inr a \<Rightarrow>
              (case long_at row j of
                 Inl e \<Rightarrow> warn line (put ''Innodb_pending_normal_aio_reads'' a s)
               | Inr b \<Rightarrow> put ''Innodb_pending_normal_aio_writes'' b
                           (put ''Innodb_pending_normal_aio_reads'' a s)))"
  using long_at_error [OF i] long_at_error [OF j]
  by (cases "long_at row i"; cases "long_at row j")
     (auto simp: pending_normal_aio_def b pending_reads_writes_def try_assign_long_def)

lemma pending_sums_exact:
  assumes b: "pending_normal_aio_body line row s =
       try_seq [try_assign_sum ''Innodb_pending_normal_aio_reads'' row is,
                try_assign_sum ''Innodb_pending_normal_aio_writes'' row js] s"
    and i: "\<forall>i \<in> set is. i < length row" and j: "\<forall>i \<in> set js. i < length row"
  shows "pending_normal_aio line row s =
     Inr (case sum_long row is of
            Inl e \<Rightarrow> warn line s
          | Inr a \<Rightarrow>
              (case sum_long row js of
                 Inl e \<Rightarrow> warn line (put ''Innodb_pending_normal_aio_reads'' a s)
               | Inr b \<Rightarrow> put ''Innodb_pending_normal_aio_writes'' b
                           (put ''Innodb_pending_normal_aio_reads'' a s)))"
  using sum_long_error [OF i] sum_long_error [OF j]
  by (cases "sum_long row is"; cases "sum_long row js")
     (auto simp: pending_normal_aio_def b try_assign_sum_def)


text \<open>
  C1, as the code has it. A line on which the first test of the chain that holds is
  the one for \<open>Pending normal aio reads:\<close> never makes the scan raise, whatever its
  tokens; no counter other than the two pending-aio counters changes, and the log
  gains this line or nothing. What happens is fixed by the number of tokens. Other
  than 8, 14, 16, 18 or 22: the state is left as it was. 8, 14, 18 or 22: the reads
  counter is token 4 and the writes counter is token 7, 10, 12 or 16; when token 4 is
  no integer literal the line is logged and neither counter is set; when it is one and
  the other token is not, the reads counter is set and the line is logged; when both
  are, both counters are set and nothing is logged. 16, with tokens 4 to 7 and 11 to
  14 all digit strings: the same, of the sums of these two groups. 16, otherwise with
  tokens 4 to 8 and 12 to 14 all digit strings: the same, of tokens 4 and 12. 16,
  otherwise: the line is logged and no counter is set. In each case the line becomes
  the previous line and the scan goes on.
\<close>

theorem pending_aio_line_never_raises:
  assumes sem: "semaphores (py_strip raw) (tokenize (py_strip raw)) s = None"
    and txn: "transactions (py_strip raw) (tokenize (py_strip raw)) s = None"
    and os: "\<not> 0 < py_find (py_strip raw) '' OS file reads, ''"
    and pend: "py_find (py_strip raw) ''Pending normal aio reads:'' = 0"
  shows "let line = py_strip raw; row = tokenize line; n = length row;
             grouped = (are_values_numeric (py_slice row 4 8) \<and>
                     are_values_numeric (py_slice row 11 15));
             single = (are_values_numeric (py_slice row 4 9) \<and>
                      are_values_numeric (py_slice row 12 15))
         in (\<exists>s'. innodb_line s raw = Inr s' \<and>
               (\<forall>k. k \<noteq> ''Innodb_pending_normal_aio_reads'' \<and>
                    k \<noteq> ''Innodb_pending_normal_aio_writes'' \<longrightarrow> results s' k = results s k) \<and>
               (warnings s' = warnings s \<or> warnings s' = warnings s @ [line])) \<and>
            (n \<notin> {8, 14, 16, 18, 22} \<longrightarrow> innodb_line s raw = Inr (s\<lparr>prev_line := line\<rparr>)) \<and>
            (n = 16 \<and> \<not> grouped \<and> \<not> single \<longrightarrow>
               innodb_line s raw = Inr ((warn line s)\<lparr>prev_line := line\<rparr>)) \<and>
            (\<forall>j. n = 8 \<and> j = 7 \<or> n = 14 \<and> j = 10 \<or> n = 16 \<and> \<not> grouped \<and> single \<and> j = 12 \<or>
                 n = 18 \<and> j = 12 \<or> n = 22 \<and> j = 16 \<longrightarrow>
               innodb_line s raw =
                 Inr ((case py_int (row ! 4) of
                         Inl e \<Rightarrow> warn line s
                       | Inr a \<Rightarrow>
                           (case py_int (row ! j) of
                              Inl e \<Rightarrow> warn line (put ''Innodb_pending_normal_aio_reads'' a s)
                            | Inr b \<Rightarrow> put ''Innodb_pending_normal_aio_writes'' b
                                        (put ''Innodb_pending_normal_aio_reads'' a s)))
                      \<lparr>prev_line := line\<rparr>)) \<and>
            (n = 16 \<and> grouped \<longrightarrow>
               innodb_line s raw =
                 Inr ((case sum_long row [4, 5, 6, 7] of
                         Inl e \<Rightarrow> warn line s
                       | Inr a \<Rightarrow>
                           (case sum_long row [11, 12, 13, 14] of
                              Inl e \<Rightarrow> warn line (put ''Innodb_pending_normal_aio_reads'' a s)
                            | Inr b \<Rightarrow> put ''Innodb_pending_normal_aio_writes'' b
                                        (put ''Innodb_pending_normal_aio_reads'' a s)))
                      \<lparr>prev_line := line\<rparr>))"
proof -
  define line where "line = py_strip raw"
  define row where "row = tokenize line"
  define n where "n = length row"
  define grouped where "grouped = (are_values_numeric (py_slice row 4 8) \<and>
                     are_values_numeric (py_slice row 11 15))"
  define single where "single = (are_values_numeric (py_slice row 4 9) \<and>
                      are_values_numeric (py_slice row 12 15))"
  from pend have "prefix ''Pending normal aio reads:'' line"
    unfolding line_def by (rule py_find_zero)
  then have "\<not> py_startswith line ''---BUFFER POOL''"
    by (auto simp: py_startswith_def prefix_def)
  then have b: "set_buffer_id line row s = Inr s"
    by (simp add: set_buffer_id_def)
  from sem txn os pend have d: "dispatch line row s = pending_normal_aio line row s"
    by (simp add: dispatch_def file_io_def line_def row_def)
  from b d have l: "innodb_line s raw =
      bindE (pending_normal_aio line row s) (\<lambda>s2. Inr (s2\<lparr>prev_line := line\<rparr>))"
    by (simp add: innodb_line_def Let_def bindE_simps line_def row_def)
  from pending_normal_aio_total [of line row s] obtain s2 where
    p: "pending_normal_aio line row s = Inr s2" and
    w: "warnings s2 = warnings s \<or> warnings s2 = warnings s @ [line]"
    by blast
  have k: "results s2 k = results s k"
    if "k \<noteq> ''Innodb_pending_normal_aio_reads'' \<and> k \<noteq> ''Innodb_pending_normal_aio_writes''"
    for k
    by (rule pending_keys_preserved [where g = "\<lambda>s. results s k", OF _ _ _ p])
       (use that in \<open>auto simp: put_def\<close>)
  have c1: "\<exists>s'. innodb_line s raw = Inr s' \<and>
               (\<forall>k. k \<noteq> ''Innodb_pending_normal_aio_reads'' \<and>
                    k \<noteq> ''Innodb_pending_normal_aio_writes'' \<longrightarrow> results s' k = results s k) \<and>
               (warnings s' = warnings s \<or> warnings s' = warnings s @ [line])"
    using l p k w by (simp add: bindE_simps)
  have c2: "innodb_line s raw = Inr (s\<lparr>prev_line := line\<rparr>)" if "n \<notin> {8, 14, 16, 18, 22}"
    using that l pending_body_other_length [of row line s]
    by (simp add: pending_normal_aio_def n_def bindE_simps)
  have c3: "innodb_line s raw = Inr ((warn line s)\<lparr>prev_line := line\<rparr>)"
    if "n = 16 \<and> \<not> grouped \<and> \<not> single"
    using that l
    by (auto simp: pending_normal_aio_def pending_normal_aio_body_def n_def grouped_def single_def
        bindE_simps)
  have c4: "innodb_line s raw =
                 Inr ((case py_int (row ! 4) of
                         Inl e \<Rightarrow> warn line s
                       | Inr a \<Rightarrow>
                           (case py_int (row ! j) of
                              Inl e \<Rightarrow> warn line (put ''Innodb_pending_normal_aio_reads'' a s)
                            | Inr b \<Rightarrow> put ''Innodb_pending_normal_aio_writes'' b
                                        (put ''Innodb_pending_normal_aio_reads'' a s)))
                      \<lparr>prev_line := line\<rparr>)"
    if h: "n = 8 \<and> j = 7 \<or> n = 14 \<and> j = 10 \<or> n = 16 \<and> \<not> grouped \<and> single \<and> j = 12 \<or>
                 n = 18 \<and> j = 12 \<or> n = 22 \<and> j = 16" for j
  proof -
    from h have body: "pending_normal_aio_body line row s = pending_reads_writes row 4 j s"
      by (auto simp: pending_normal_aio_body_def n_def grouped_def single_def)
    from h have r: "4 < length row" "j < length row" by (auto simp: n_def)
    from pending_pair_exact [OF body r,
        unfolded long_at_in_range [OF r(1)] long_at_in_range [OF r(2)]] l
    show ?thesis
      by (simp add: bindE_simps)
  qed
  have c5: "innodb_line s raw =
                 Inr ((case sum_long row [4, 5, 6, 7] of
                         Inl e \<Rightarrow> warn line s
                       | Inr a \<Rightarrow>
                           (case sum_long row [11, 12, 13, 14] of
                              Inl e \<Rightarrow> warn line (put ''Innodb_pending_normal_aio_reads'' a s)
                            | Inr b \<Rightarrow> put ''Innodb_pending_normal_aio_writes'' b
                                        (put ''Innodb_pending_normal_aio_reads'' a s)))
                      \<lparr>prev_line := line\<rparr>)"
    if h: "n = 16 \<and> grouped"
  proof -
    from h have body: "pending_normal_aio_body line row s =
       try_seq [try_assign_sum ''Innodb_pending_normal_aio_reads'' row [4, 5, 6, 7],
                try_assign_sum ''Innodb_pending_normal_aio_writes'' row [11, 12, 13, 14]] s"
      by (simp add: pending_normal_aio_body_def n_def grouped_def del: try_seq.simps)
    from h have r: "\<forall>i \<in> set [4, 5, 6, 7]. i < length row"
      "\<forall>i \<in> set [11, 12, 13, 14]. i < length row" by (auto simp: n_def)
    from pending_sums_exact [OF body r] l show ?thesis
      by (simp add: bindE_simps del: sum_long.simps)
  qed
  from c1 c2 c3 c4 c5 show ?thesis
    unfolding Let_def line_def [symmetric] row_def [symmetric] n_def [symmetric]
      grouped_def [symmetric] single_def [symmetric]
    by blast
qed

lemma seventeen_tokens:
  "length (tokenize (py_strip
     ''Pending normal aio reads: [0, 0, 0, 0, 0, 0] , aio writes: [0, 0, 0] ,'')) = 17"
  by (simp add: text_defs)

lemma unparsed_writes_line:
  "py_strip ''Pending normal aio reads: 5, aio writes: x,'' = ''Pending normal aio reads: 5, aio writes: x,'' \<and>
   tokenize ''Pending normal aio reads: 5, aio writes: x,'' =
     [''Pending'', ''normal'', ''aio'', ''reads:'', ''5'', ''aio'', ''writes:'', ''x'']"
  by (simp add: text_defs)

lemma unparsed_writes_reached:
  "semaphores ''Pending normal aio reads: 5, aio writes: x,'' r s = None"
  "transactions ''Pending normal aio reads: 5, aio writes: x,'' r s = None"
  "\<not> 0 < py_find ''Pending normal aio reads: 5, aio writes: x,'' '' OS file reads, ''"
  "py_find ''Pending normal aio reads: 5, aio writes: x,'' ''Pending normal aio reads:'' = 0"
  by (simp_all add: semaphores_def transactions_def py_find_def)

lemma both_parsed_line:
  "py_strip ''Pending normal aio reads: 2 [0, 0] , aio writes: 3 [0, 0] ,'' = ''Pending normal aio reads: 2 [0, 0] , aio writes: 3 [0, 0] ,'' \<and>
   tokenize ''Pending normal aio reads: 2 [0, 0] , aio writes: 3 [0, 0] ,'' =
     [''Pending'', ''normal'', ''aio'', ''reads:'', ''2'', ''0'', ''0'', [], ''aio'', ''writes:'', ''3'', ''0'', ''0'', []]"
  by (simp add: text_defs)

lemma both_parsed_reached:
  "semaphores ''Pending normal aio reads: 2 [0, 0] , aio writes: 3 [0, 0] ,'' r s = None"
  "transactions ''Pending normal aio reads: 2 [0, 0] , aio writes: 3 [0, 0] ,'' r s = None"
  "\<not> 0 < py_find ''Pending normal aio reads: 2 [0, 0] , aio writes: 3 [0, 0] ,'' '' OS file reads, ''"
  "py_find ''Pending normal aio reads: 2 [0, 0] , aio writes: 3 [0, 0] ,'' ''Pending normal aio reads:'' = 0"
  by (simp_all add: semaphores_def transactions_def py_find_def)

lemma grouped_line:
  "py_strip ''Pending normal aio reads: [1, 2, 3, 4] , aio writes: [5, 6, 7, 8] ,'' = ''Pending normal aio reads: [1, 2, 3, 4] , aio writes: [5, 6, 7, 8] ,'' \<and>
   tokenize ''Pending normal aio reads: [1, 2, 3, 4] , aio writes: [5, 6, 7, 8] ,'' =
     [''Pending'', ''normal'', ''aio'', ''reads:'', ''1'', ''2'', ''3'', ''4'', [], ''aio'', ''writes:'', ''5'', ''6'', ''7'', ''8'', []]"
  by (simp add: text_defs)

lemma grouped_reached:
  "semaphores ''Pending normal aio reads: [1, 2, 3, 4] , aio writes: [5, 6, 7, 8] ,'' r s = None"
  "transactions ''Pending normal aio reads: [1, 2, 3, 4] , aio writes: [5, 6, 7, 8] ,'' r s = None"
  "\<not> 0 < py_find ''Pending normal aio reads: [1, 2, 3, 4] , aio writes: [5, 6, 7, 8] ,'' '' OS file reads, ''"
  "py_find ''Pending normal aio reads: [1, 2, 3, 4] , aio writes: [5, 6, 7, 8] ,'' ''Pending normal aio reads:'' = 0"
  by (simp_all add: semaphores_def transactions_def py_find_def)

lemma sixteen_words_line:
  "py_strip ''Pending normal aio reads: a b c d e f g h i j k l'' = ''Pending normal aio reads: a b c d e f g h i j k l'' \<and>
   tokenize ''Pending normal aio reads: a b c d e f g h i j k l'' =
     [''Pending'', ''normal'', ''aio'', ''reads:'', ''a'', ''b'', ''c'', ''d'', ''e'', ''f'', ''g'', ''h'', ''i'', ''j'', ''k'', ''l'']"
  by (simp add: text_defs)

lemma sixteen_words_reached:
  "semaphores ''Pending normal aio reads: a b c d e f g h i j k l'' r s = None"
  "transactions ''Pending normal aio reads: a b c d e f g h i j k l'' r s = None"
  "\<not> 0 < py_find ''Pending normal aio reads: a b c d e f g h i j k l'' '' OS file reads, ''"
  "py_find ''Pending normal aio reads: a b c d e f g h i j k l'' ''Pending normal aio reads:'' = 0"
  by (simp_all add: semaphores_def transactions_def py_find_def)

lemma pending_tokens:
  "py_int ''5'' = Inr 5 \<and> py_int ''x'' = Inl ValueError \<and> py_int ''2'' = Inr 2 \<and>
   py_int ''3'' = Inr 3"
  by code_simp

lemma grouped_sums:
  "sum_long [''Pending'', ''normal'', ''aio'', ''reads:'', ''1'', ''2'', ''3'', ''4'', [], ''aio'',
       ''writes:'', ''5'', ''6'', ''7'', ''8'', []] [4, 5, 6, 7] = Inr 10 \<and>
   sum_long [''Pending'', ''normal'', ''aio'', ''reads:'', ''1'', ''2'', ''3'', ''4'', [], ''aio'',
       ''writes:'', ''5'', ''6'', ''7'', ''8'', []] [11, 12, 13, 14] = Inr 26 \<and>
   are_values_numeric (py_slice [''Pending'', ''normal'', ''aio'', ''reads:'', ''1'', ''2'', ''3'',
       ''4'', [], ''aio'', ''writes:'', ''5'', ''6'', ''7'', ''8'', []] 4 8) \<and>
   are_values_numeric (py_slice [''Pending'', ''normal'', ''aio'', ''reads:'', ''1'', ''2'', ''3'',
       ''4'', [], ''aio'', ''writes:'', ''5'', ''6'', ''7'', ''8'', []] 11 15)"
  by code_simp

lemma sixteen_words_not_numeric:
  "\<not> are_values_numeric (py_slice [''Pending'', ''normal'', ''aio'', ''reads:'', ''a'', ''b'', ''c'',
       ''d'', ''e'', ''f'', ''g'', ''h'', ''i'', ''j'', ''k'', ''l''] 4 8) \<and>
   \<not> are_values_numeric (py_slice [''Pending'', ''normal'', ''aio'', ''reads:'', ''a'', ''b'', ''c'',
       ''d'', ''e'', ''f'', ''g'', ''h'', ''i'', ''j'', ''k'', ''l''] 4 9)"
  by code_simp

theorem pending_aio_line_never_raises_witness:
  "innodb_line initial_state ''Pending normal aio reads: 5, aio writes: x,'' =
     Inr \<lparr>results = [''Innodb_pending_normal_aio_reads'' \<mapsto> 5], txn_seen = False,
          prev_line = ''Pending normal aio reads: 5, aio writes: x,'', buffer_id = - 1,
          warnings = [''Pending normal aio reads: 5, aio writes: x,'']\<rparr> \<and>
   innodb_line initial_state ''Pending normal aio reads: 2 [0, 0] , aio writes: 3 [0, 0] ,'' =
     Inr \<lparr>results = [''Innodb_pending_normal_aio_reads'' \<mapsto> 2,
                     ''Innodb_pending_normal_aio_writes'' \<mapsto> 3], txn_seen = False,
          prev_line = ''Pending normal aio reads: 2 [0, 0] , aio writes: 3 [0, 0] ,'',
          buffer_id = - 1, warnings = []\<rparr> \<and>
   innodb_line initial_state
       ''Pending normal aio reads: [1, 2, 3, 4] , aio writes: [5, 6, 7, 8] ,'' =
     Inr \<lparr>results = [''Innodb_pending_normal_aio_reads'' \<mapsto> 10,
                     ''Innodb_pending_normal_aio_writes'' \<mapsto> 26], txn_seen = False,
          prev_line = ''Pending normal aio reads: [1, 2, 3, 4] , aio writes: [5, 6, 7, 8] ,'',
          buffer_id = - 1, warnings = []\<rparr> \<and>
   innodb_line initial_state ''Pending normal aio reads: a b c d e f g h i j k l'' =
     Inr \<lparr>results = Map.empty, txn_seen = False,
          prev_line = ''Pending normal aio reads: a b c d e f g h i j k l'', buffer_id = - 1,
          warnings = [''Pending normal aio reads: a b c d e f g h i j k l'']\<rparr> \<and>
   innodb_line initial_state
       ''Pending normal aio reads: [0, 0, 0, 0, 0, 0] , aio writes: [0, 0, 0] ,'' =
     Inr \<lparr>results = Map.empty, txn_seen = False,
          prev_line = ''Pending normal aio reads: [0, 0, 0, 0, 0, 0] , aio writes: [0, 0, 0] ,'',
          buffer_id = - 1, warnings = []\<rparr>"
proof -
  note a = unparsed_writes_line [THEN conjunct1]
  note t = pending_aio_line_never_raises [of "''Pending normal aio reads: 5, aio writes: x,''"
      initial_state, unfolded Let_def a, OF unparsed_writes_reached]
  from t unparsed_writes_line pending_tokens
  have 1: "innodb_line initial_state ''Pending normal aio reads: 5, aio writes: x,'' =
     Inr \<lparr>results = [''Innodb_pending_normal_aio_reads'' \<mapsto> 5], txn_seen = False,
          prev_line = ''Pending normal aio reads: 5, aio writes: x,'', buffer_id = - 1,
          warnings = [''Pending normal aio reads: 5, aio writes: x,'']\<rparr>"
    by (simp add: initial_state_def put_def warn_def)
  note b = both_parsed_line [THEN conjunct1]
  note t = pending_aio_line_never_raises
      [of "''Pending normal aio reads: 2 [0, 0] , aio writes: 3 [0, 0] ,''"
      initial_state, unfolded Let_def b, OF both_parsed_reached]
  from t both_parsed_line pending_tokens
  have 2: "innodb_line initial_state ''Pending normal aio reads: 2 [0, 0] , aio writes: 3 [0, 0] ,'' =
     Inr \<lparr>results = [''Innodb_pending_normal_aio_reads'' \<mapsto> 2,
                     ''Innodb_pending_normal_aio_writes'' \<mapsto> 3], txn_seen = False,
          prev_line = ''Pending normal aio reads: 2 [0, 0] , aio writes: 3 [0, 0] ,'',
          buffer_id = - 1, warnings = []\<rparr>"
    by (simp add: initial_state_def put_def warn_def)
  note c = grouped_line [THEN conjunct1]
  note t = pending_aio_line_never_raises
      [of "''Pending normal aio reads: [1, 2, 3, 4] , aio writes: [5, 6, 7, 8] ,''"
      initial_state, unfolded Let_def c, OF grouped_reached]
  from t grouped_line grouped_sums
  have 3: "innodb_line initial_state
       ''Pending normal aio reads: [1, 2, 3, 4] , aio writes: [5, 6, 7, 8] ,'' =
     Inr \<lparr>results = [''Innodb_pending_normal_aio_reads'' \<mapsto> 10,
                     ''Innodb_pending_normal_aio_writes'' \<mapsto> 26], txn_seen = False,
          prev_line = ''Pending normal aio reads: [1, 2, 3, 4] , aio writes: [5, 6, 7, 8] ,'',
          buffer_id = - 1, warnings = []\<rparr>"
    by (simp add: initial_state_def put_def warn_def del: sum_long.simps)
  note d = sixteen_words_line [THEN conjunct1]
  note t = pending_aio_line_never_raises
      [of "''Pending normal aio reads: a b c d e f g h i j k l''"
      initial_state, unfolded Let_def d, OF sixteen_words_reached]
  from t sixteen_words_line sixteen_words_not_numeric
  have 4: "innodb_line initial_state ''Pending normal aio reads: a b c d e f g h i j k l'' =
     Inr \<lparr>results = Map.empty, txn_seen = False,
          prev_line = ''Pending normal aio reads: a b c d e f g h i j k l'', buffer_id = - 1,
          warnings = [''Pending normal aio reads: a b c d e f g h i j k l'']\<rparr>"
    by (simp add: initial_state_def warn_def)
  have e: "py_strip ''Pending normal aio reads: [0, 0, 0, 0, 0, 0] , aio writes: [0, 0, 0] ,''
      = ''Pending normal aio reads: [0, 0, 0, 0, 0, 0] , aio writes: [0, 0, 0] ,''"
    by (simp add: text_defs)
  have r: "semaphores ''Pending normal aio reads: [0, 0, 0, 0, 0, 0] , aio writes: [0, 0, 0] ,''
      (tokenize ''Pending normal aio reads: [0, 0, 0, 0, 0, 0] , aio writes: [0, 0, 0] ,'')
      initial_state = None"
    "transactions ''Pending normal aio reads: [0, 0, 0, 0, 0, 0] , aio writes: [0, 0, 0] ,''
      (tokenize ''Pending normal aio reads: [0, 0, 0, 0, 0, 0] , aio writes: [0, 0, 0] ,'')
      initial_state = None"
    "\<not> 0 < py_find ''Pending normal aio reads: [0, 0, 0, 0, 0, 0] , aio writes: [0, 0, 0] ,''
      '' OS file reads, ''"
    "py_find ''Pending normal aio reads: [0, 0, 0, 0, 0, 0] , aio writes: [0, 0, 0] ,''
      ''Pending normal aio reads:'' = 0"
    by (simp_all add: semaphores_def transactions_def py_find_def)
  note t = pending_aio_line_never_raises
      [of "''Pending normal aio reads: [0, 0, 0, 0, 0, 0] , aio writes: [0, 0, 0] ,''"
      initial_state, unfolded Let_def e, OF r]
  from t seventeen_tokens [unfolded e]
  have 5: "innodb_line initial_state
       ''Pending normal aio reads: [0, 0, 0, 0, 0, 0] , aio writes: [0, 0, 0] ,'' =
     Inr \<lparr>results = Map.empty, txn_seen = False,
          prev_line = ''Pending normal aio reads: [0, 0, 0, 0, 0, 0] , aio writes: [0, 0, 0] ,'',
          buffer_id = - 1, warnings = []\<rparr>"
    by (simp add: initial_state_def)
  from 1 2 3 4 5 show ?thesis by (intro conjI)
qed

subsection \<open>The catalog of metrics\<close>

lemma vc_566: "version_compatible (Some \<lparr>version = ''5.7.20'', flavor = ''MySQL'', build = ''log''\<rparr>) (5, 6, 6) = Inr True"
  by code_simp

lemma vc_560: "version_compatible (Some \<lparr>version = ''5.7.20'', flavor = ''MySQL'', build = ''log''\<rparr>) (5, 6, 0) = Inr True"
  by code_simp

lemmas pass_defs = collect_metrics_def when_toggle_def metrics_update_def with_version_def
  run_classifier_def remove_uncomputed_def

lemma collect_off:
  "version_compatible (metadata p) (5, 6, 0) = Inr b \<Longrightarrow>
   \<not> extra_innodb_metrics p \<Longrightarrow> \<not> extra_status_metrics p \<Longrightarrow> \<not> galera_cluster p \<Longrightarrow>
   \<not> extra_performance_metrics p \<Longrightarrow> \<not> schema_size_metrics p \<Longrightarrow> \<not> replication p \<Longrightarrow>
   collect_metrics p t = (None, t\<lparr>STATUS_VARS :=
        (\<lambda>k. if SYNTHETIC_VARS t k \<noteq> None \<and> \<not> in_results p k then None
             else (STATUS_VARS t ++ VARIABLES_VARS t ++ INNODB_VARS t ++ BINLOG_VARS t
                   ++ SYNTHETIC_VARS t) k)\<rparr>)"
  by (simp add: pass_defs cong: if_cong)

lemma collect_on:
  "version_compatible (metadata p) (5, 6, 6) = Inr True \<Longrightarrow>
   version_compatible (metadata p) (5, 6, 0) = Inr True \<Longrightarrow>
   \<not> disable_innodb_metrics p \<Longrightarrow> innodb_engine_enabled p \<Longrightarrow> performance_schema_enabled p \<Longrightarrow>
   extra_innodb_metrics p \<Longrightarrow> extra_status_metrics p \<Longrightarrow> galera_cluster p \<Longrightarrow>
   extra_performance_metrics p \<Longrightarrow> schema_size_metrics p \<Longrightarrow> \<not> replication p \<Longrightarrow>
   collect_metrics p t = (None, t\<lparr>STATUS_VARS :=
        (\<lambda>k. if SYNTHETIC_VARS t k \<noteq> None \<and> \<not> in_results p k then None
             else (STATUS_VARS t ++ OPTIONAL_INNODB_VARS t ++ VARIABLES_VARS t ++ INNODB_VARS t
                   ++ BINLOG_VARS t ++ OPTIONAL_STATUS_VARS t ++ OPTIONAL_STATUS_VARS_5_6_6 t
                   ++ GALERA_VARS t ++ PERFORMANCE_VARS t ++ SCHEMA_VARS t
                   ++ SYNTHETIC_VARS t) k)\<rparr>)"
  by (simp add: pass_defs cong: if_cong)

lemma pass_off:
  "collect_metrics (example_pass False) t = (None, t\<lparr>STATUS_VARS :=
        (\<lambda>k. if SYNTHETIC_VARS t k \<noteq> None then None
             else (STATUS_VARS t ++ VARIABLES_VARS t ++ INNODB_VARS t ++ BINLOG_VARS t
                   ++ SYNTHETIC_VARS t) k)\<rparr>)"
  using collect_off [of "example_pass False" True t]
  by (simp add: example_pass_def vc_560)

lemma pass_on:
  "collect_metrics (example_pass True) t = (None, t\<lparr>STATUS_VARS :=
        (\<lambda>k. if SYNTHETIC_VARS t k \<noteq> None then None
             else (STATUS_VARS t ++ OPTIONAL_INNODB_VARS t ++ VARIABLES_VARS t ++ INNODB_VARS t
                   ++ BINLOG_VARS t ++ OPTIONAL_STATUS_VARS t ++ OPTIONAL_STATUS_VARS_5_6_6 t
                   ++ GALERA_VARS t ++ PERFORMANCE_VARS t ++ SCHEMA_VARS t
                   ++ SYNTHETIC_VARS t) k)\<rparr>)"
  using collect_on [of "example_pass True" t]
  by (simp add: example_pass_def vc_560 vc_566)


text \<open>
  C6, on tables with one descriptor per optional group. A pass with every toggle off
  emits none of the optional descriptors when it is the first pass of the process;
  the same pass run after a pass with the toggles on emits all six of them, since the
  first pass has added them to the dictionary of the module that both passes use.
\<close>

theorem toggles_off_after_on:
  "catalog_of (collect_metrics (example_pass False) example_tables) \<noteq> None \<and>
   map (the (catalog_of (collect_metrics (example_pass False) example_tables))) optional_keys
     = [None, None, None, None, None, None] \<and>
   fst (collect_metrics (example_pass True) example_tables) = None \<and>
   catalog_of (collect_metrics (example_pass False)
      (snd (collect_metrics (example_pass True) example_tables))) \<noteq> None \<and>
   map (the (catalog_of (collect_metrics (example_pass False)
      (snd (collect_metrics (example_pass True) example_tables))))) optional_keys
     = [Some (''mysql.binlog.cache_disk_use'', GAUGE),
        Some (''mysql.performance.table_cache_hits'', RATE),
        Some (''mysql.innodb.history_list_length'', GAUGE),
        Some (''mysql.galera.wsrep_cluster_size'', GAUGE),
        Some (''mysql.performance.query_run_time.avg'', GAUGE),
        Some (''mysql.info.schema.size'', GAUGE)]"
  by (simp add: pass_on pass_off catalog_of_def optional_keys_def example_tables_def map_add_def)

subsection \<open>Rounding to binary64\<close>

lemma bitlen_lower: "0 < n \<Longrightarrow> 2 ^ (bitlen n - 1) \<le> n"
proof (induction n rule: bitlen.induct)
  case (1 n)
  show ?case
  proof (cases "n div 2 = 0")
    case True
    with 1(2) have "n = 1" by (auto simp: div_eq_0_iff)
    then show ?thesis by (simp add: bitlen.simps [of "Suc 0"] bitlen.simps [of 0])
  next
    case False
    then have pos: "0 < n div 2" by simp
    from 1(2) have nz: "n \<noteq> 0" by simp
    from 1(1) [OF nz pos] have ih: "2 ^ (bitlen (n div 2) - 1) \<le> n div 2" .
    from pos have "bitlen (n div 2) \<noteq> 0" by (simp add: bitlen.simps [of "n div 2"])
    then have "bitlen n - 1 = Suc (bitlen (n div 2) - 1)"
      using nz by (simp add: bitlen.simps [of n])
    then have "(2::nat) ^ (bitlen n - 1) = 2 * 2 ^ (bitlen (n div 2) - 1)" by simp
    also have "\<dots> \<le> 2 * (n div 2)" using ih by simp
    also have "\<dots> \<le> n" by simp
    finally show ?thesis .
  qed
qed

lemma bitlen_upper: "n < 2 ^ k \<Longrightarrow> bitlen n \<le> k"
proof (induction n arbitrary: k rule: bitlen.induct)
  case (1 n)
  show ?case
  proof (cases "n = 0")
    case True
    then show ?thesis by (simp add: bitlen.simps [of 0])
  next
    case False
    with 1(2) obtain j where k: "k = Suc j" by (cases k) auto
    with 1(2) have "n div 2 < 2 ^ j" by auto
    from 1(1) [OF False this] k False show ?thesis by (simp add: bitlen.simps [of n])
  qed
qed

lemma pow2_pos: "0 < pow2 k"
  by (simp add: pow2_def)

lemma pow2_nat: "pow2 (int k) = 2 ^ k"
  by (simp add: pow2_def)

lemma pow2_mono: "a \<le> b \<Longrightarrow> pow2 a \<le> pow2 b"
proof -
  assume ab: "a \<le> b"
  have eq: "pow2 k = 2 powi k" for k
    by (simp add: pow2_def power_int_def field_simps)
  show ?thesis unfolding eq using ab by (intro power_int_increasing) simp_all
qed

lemma round_half_even_bounds:
  "\<lfloor>z\<rfloor> \<le> round_half_even z \<and> round_half_even z \<le> \<lfloor>z\<rfloor> + 1"
  by (simp add: round_half_even_def Let_def)


lemma bitlen_pos: "0 < n \<Longrightarrow> 0 < bitlen n"
  by (simp add: bitlen.simps [of n])

lemma round_double_int:
  fixes n :: int
  assumes n1: "1 \<le> n" and nb: "n < 2 ^ 1023"
  shows "\<exists>v. round_double (of_int n) = Finite v \<and> 0 < v"
proof -
  define q :: rat where "q = of_int n"
  define m where "m = nat n"
  define e where "e = int (bitlen m) - 1"
  define p where "p = max (e - 52) (- 1074)"
  define z where "z = q / pow2 p"
  define r where "r = round_half_even z"
  define v where "v = of_int r * pow2 p"
  from n1 have q1: "1 \<le> q" by (simp add: q_def)
  from n1 have m0: "0 < m" and qm: "q = of_nat m" by (simp_all add: m_def q_def)
  from nb n1 have "m < 2 ^ 1023" by (simp add: m_def nat_less_iff)
  then have "bitlen m \<le> 1023" by (rule bitlen_upper)
  with bitlen_pos [OF m0] have e: "0 \<le> e" "e \<le> 1022" by (simp_all add: e_def)
  have fl: "floor_log2 q = e"
    using q1 by (simp add: floor_log2_def e_def m_def q_def)
  have "pow2 e = 2 ^ (bitlen m - 1)"
    using bitlen_pos [OF m0] by (simp add: e_def pow2_def nat_diff_distrib)
  also have "\<dots> \<le> q"
    unfolding qm using bitlen_lower [OF m0]
    by (metis of_nat_le_iff of_nat_numeral of_nat_power)
  finally have pe: "pow2 e \<le> q" .
  from e have pp: "p = e - 52" by (simp add: p_def)
  then have "pow2 p \<le> pow2 e" by (intro pow2_mono) simp
  with pe have pq: "pow2 p \<le> q" by simp
  then have z1: "1 \<le> z" using pow2_pos [of p] by (simp add: z_def le_divide_eq)
  then have f1: "1 \<le> \<lfloor>z\<rfloor>" by simp
  have rl: "\<lfloor>z\<rfloor> \<le> r" and ru: "r \<le> \<lfloor>z\<rfloor> + 1"
    unfolding r_def using round_half_even_bounds [of z] by blast+
  from f1 rl have r1: "1 \<le> r" by (rule order_trans)
  from r1 pow2_pos [of p] have v0: "0 < v" by (simp add: v_def)
  from ru have "(of_int r :: rat) \<le> of_int (\<lfloor>z\<rfloor> + 1)" by (simp only: of_int_le_iff)
  also have "\<dots> \<le> z + 1" by simp
  finally have "v \<le> (z + 1) * pow2 p"
    using pow2_pos [of p] by (simp add: v_def)
  also have "\<dots> = q + pow2 p" using pow2_pos [of p] by (simp add: z_def field_simps)
  also have "\<dots> \<le> 2 * q" using pq by simp
  also have "\<dots> < 2 * 2 ^ 1023" using nb by (simp add: q_def)
  finally have vb: "v < pow2 1024" by (simp add: pow2_def)
  have "round_pos q = v"
    by (simp add: round_pos_def fl Let_def v_def r_def z_def p_def)
  with q1 v0 vb have "round_double q = Finite v"
    by (simp add: round_double_def Let_def)
  with v0 show ?thesis by (auto simp: q_def)
qed

lemma digit_rest_chars:
  "digit_rest acc s = Some n \<Longrightarrow> \<forall>c \<in> set s. is_dec c \<or> c = CHR ''_''"
  by (induction acc s arbitrary: n rule: digit_rest.induct) (auto split: if_splits)

lemma digitpart_chars:
  assumes "digitpart s = Some n"
  shows "s \<noteq> []" "is_dec (hd s)" "\<forall>c \<in> set s. is_dec c \<or> c = CHR ''_''"
  using assms by (cases s; auto simp: digitpart_def split: if_splits dest: digit_rest_chars)+

lemma is_dec_plain:
  "is_dec c \<Longrightarrow> \<not> is_exp_mark c \<and> c \<noteq> CHR ''.'' \<and> c \<noteq> CHR ''i'' \<and> c \<noteq> CHR ''n''
     \<and> py_lower_char c = c"
  by (auto simp: is_dec_def is_exp_mark_def py_lower_char_def Let_def)

lemma parse_abs_float_digits:
  assumes "digitpart s = Some n"
  shows "parse_abs_float s = Some (round_double (of_nat n))"
proof -
  note d = digitpart_chars [OF assms]
  from d(1) obtain c cs where s: "s = c # cs" by (cases s) auto
  with d(2) have c: "is_dec c" by simp
  then have "py_lower s = c # py_lower cs" using s is_dec_plain by (simp add: py_lower_def)
  with c is_dec_plain [OF c] have l: "py_lower s \<noteq> ''inf''" "py_lower s \<noteq> ''infinity''"
    "py_lower s \<noteq> ''nan''" by auto
  have e: "\<forall>x \<in> set s. \<not> is_exp_mark x"
    using d(3) is_dec_plain by (auto simp: is_exp_mark_def)
  have p: "\<forall>x \<in> set s. x \<noteq> CHR ''.''"
    using d(3) is_dec_plain by auto
  from e have m: "takeWhile (\<lambda>c. \<not> is_exp_mark c) s = s" "dropWhile (\<lambda>c. \<not> is_exp_mark c) s = []"
    by (simp_all add: takeWhile_eq_all_conv)
  from p have i: "takeWhile (\<lambda>c. c \<noteq> CHR ''.'') s = s" "dropWhile (\<lambda>c. c \<noteq> CHR ''.'') s = []"
    by (simp_all add: takeWhile_eq_all_conv)
  have "parse_number s = Some (of_nat n)"
    by (simp add: parse_number_def Let_def i assms)
  then show ?thesis
    by (simp add: parse_abs_float_def Let_def l m)
qed

lemma float_neg_round: "float_neg (round_double q) = round_double (- q)"
  by (simp add: round_double_def float_neg_def Let_def)

lemma py_float_of_int_literal:
  assumes "py_int s = Inr v"
  shows "py_float_of_str s = Inr (round_double (of_int v))"
proof -
  from assms obtain n where n: "digitpart (snd (signed_body s)) = Some n"
    and v: "v = (if fst (signed_body s) then - int n else int n)"
    by (auto simp: py_int_def split: option.splits)
  from parse_abs_float_digits [OF n] v show ?thesis
    by (simp add: py_float_of_str_def float_neg_round)
qed

subsection \<open>Query-cache utilization\<close>

lemma instant_zero_delta:
  "py_int hits = Inr ph \<Longrightarrow> instant_utilization ph pins pnc hits inserts not_cached = Inr (PInt 0)"
  by (simp add: instant_utilization_def bindE_simps)

lemma compute_first_sample:
  assumes "compute_synthetic_results q res = Inr (res', q')"
    and "qcache_hits q = None \<or> qcache_inserts q = None \<or> qcache_not_cached q = None"
  shows "Qcache_instant_utilization res' = Qcache_instant_utilization res"
  using assms
  by (cases "Qcache_hits res"; cases "Qcache_inserts res"; cases "Qcache_not_cached res";
      cases "qcache_hits q"; cases "qcache_inserts q"; cases "qcache_not_cached q")
     (auto simp: compute_synthetic_results_def bindE_Inr_iff)

lemma compute_instant_only_with_prior:
  assumes "compute_synthetic_results q res = Inr (res', q')"
    and "Qcache_instant_utilization res = None" "Qcache_instant_utilization res' \<noteq> None"
  shows "qcache_hits q \<noteq> None \<and> qcache_inserts q \<noteq> None \<and> qcache_not_cached q \<noteq> None"
proof (rule ccontr)
  assume "\<not> ?thesis"
  then have "qcache_hits q = None \<or> qcache_inserts q = None \<or> qcache_not_cached q = None"
    by blast
  from compute_first_sample [OF assms(1) this] assms(2,3) show False by simp
qed

lemma compute_present:
  assumes "compute_synthetic_results q res = Inr (res', q')"
    and "Qcache_hits res = Some hits" "Qcache_inserts res = Some inserts"
    "Qcache_not_cached res = Some not_cached"
  shows "\<exists>u h i n. cumulative_utilization hits inserts not_cached = Inr u \<and>
           py_int hits = Inr h \<and> py_int inserts = Inr i \<and> py_int not_cached = Inr n \<and>
           q' = \<lparr>qcache_hits = Some h, qcache_inserts = Some i, qcache_not_cached = Some n\<rparr> \<and>
           Qcache_utilization res' = Some u"
  using assms
  by (cases "qcache_hits q"; cases "qcache_inserts q"; cases "qcache_not_cached q")
     (auto simp: compute_synthetic_results_def bindE_Inr_iff)

lemma set_after_put: "set_qcache_stats (put_qcache_stats store c q) c = q"
  by (simp add: set_qcache_stats_def put_qcache_stats_def)

lemma compute_same_again:
  assumes "cumulative_utilization hits inserts not_cached = Inr u"
    and "py_int hits = Inr h" "py_int inserts = Inr i" "py_int not_cached = Inr n"
    and "Qcache_hits res = Some hits" "Qcache_inserts res = Some inserts"
    "Qcache_not_cached res = Some not_cached"
  shows "compute_synthetic_results
           \<lparr>qcache_hits = Some h, qcache_inserts = Some i, qcache_not_cached = Some n\<rparr> res
         = Inr (res\<lparr>Qcache_utilization := Some u, Qcache_instant_utilization := Some (PInt 0)\<rparr>,
                \<lparr>qcache_hits = Some h, qcache_inserts = Some i, qcache_not_cached = Some n\<rparr>)"
  using assms
  by (simp add: compute_synthetic_results_def bindE_simps instant_zero_delta)

text \<open>
  C7. A pass for an identity that the store does not know yet adds no instantaneous
  utilization, and the function adds one only when the three counters of the previous
  pass are all present. When the hits have not moved since the previous pass the
  instantaneous value is the integer 0, with no division. After a pass that returned
  with the three counters in \<open>results\<close>, a second pass with the same counters returns
  too, with the instantaneous utilization 0.
\<close>

theorem instant_utilization_needs_prior:
  "(sample store c res = Inr (res1, store1) \<and> store (get_host_key c) = None \<longrightarrow>
      Qcache_instant_utilization res1 = Qcache_instant_utilization res) \<and>
   (compute_synthetic_results q r = Inr (r1, q1) \<and>
    Qcache_instant_utilization r = None \<and> Qcache_instant_utilization r1 \<noteq> None \<longrightarrow>
      qcache_hits q \<noteq> None \<and> qcache_inserts q \<noteq> None \<and> qcache_not_cached q \<noteq> None) \<and>
   (py_int hits = Inr ph \<longrightarrow>
      instant_utilization ph pins pnc hits inserts not_cached = Inr (PInt 0)) \<and>
   (sample st cf rs = Inr (rs1, st1) \<and> Qcache_hits rs \<noteq> None \<and>
    Qcache_inserts rs \<noteq> None \<and> Qcache_not_cached rs \<noteq> None \<longrightarrow>
      (\<exists>rs2 st2. sample st1 cf rs = Inr (rs2, st2) \<and>
         Qcache_instant_utilization rs2 = Some (PInt 0)))"
proof -
  have p1: "sample store c res = Inr (res1, store1) \<and> store (get_host_key c) = None \<longrightarrow>
      Qcache_instant_utilization res1 = Qcache_instant_utilization res"
  proof
    assume a: "sample store c res = Inr (res1, store1) \<and> store (get_host_key c) = None"
    then obtain q1 where "compute_synthetic_results (set_qcache_stats store c) res = Inr (res1, q1)"
      by (auto simp: sample_def bindE_Inr_iff)
    moreover from a have "qcache_hits (set_qcache_stats store c) = None"
      by (simp add: set_qcache_stats_def)
    ultimately show "Qcache_instant_utilization res1 = Qcache_instant_utilization res"
      using compute_first_sample by blast
  qed
  have p2: "compute_synthetic_results q r = Inr (r1, q1) \<and>
    Qcache_instant_utilization r = None \<and> Qcache_instant_utilization r1 \<noteq> None \<longrightarrow>
      qcache_hits q \<noteq> None \<and> qcache_inserts q \<noteq> None \<and> qcache_not_cached q \<noteq> None"
    using compute_instant_only_with_prior by blast
  have p3: "py_int hits = Inr ph \<longrightarrow>
      instant_utilization ph pins pnc hits inserts not_cached = Inr (PInt 0)"
    using instant_zero_delta by blast
  have p4: "sample st cf rs = Inr (rs1, st1) \<and> Qcache_hits rs \<noteq> None \<and>
    Qcache_inserts rs \<noteq> None \<and> Qcache_not_cached rs \<noteq> None \<longrightarrow>
      (\<exists>rs2 st2. sample st1 cf rs = Inr (rs2, st2) \<and>
         Qcache_instant_utilization rs2 = Some (PInt 0))"
  proof
    assume a: "sample st cf rs = Inr (rs1, st1) \<and> Qcache_hits rs \<noteq> None \<and>
      Qcache_inserts rs \<noteq> None \<and> Qcache_not_cached rs \<noteq> None"
    then obtain hs ins ncs where k: "Qcache_hits rs = Some hs" "Qcache_inserts rs = Some ins"
      "Qcache_not_cached rs = Some ncs" by auto
    from a obtain q1 where
      1: "compute_synthetic_results (set_qcache_stats st cf) rs = Inr (rs1, q1)" and
      2: "st1 = put_qcache_stats st cf q1"
      by (auto simp: sample_def bindE_Inr_iff)
    from compute_present [OF 1 k] obtain u h i n where
      p: "cumulative_utilization hs ins ncs = Inr u" "py_int hs = Inr h" "py_int ins = Inr i"
        "py_int ncs = Inr n"
        "q1 = \<lparr>qcache_hits = Some h, qcache_inserts = Some i, qcache_not_cached = Some n\<rparr>"
      by blast
    from compute_same_again [OF p(1-4) k] p(5) 2
    show "\<exists>rs2 st2. sample st1 cf rs = Inr (rs2, st2) \<and>
           Qcache_instant_utilization rs2 = Some (PInt 0)"
      by (simp add: sample_def set_after_put bindE_simps)
  qed
  from p1 p2 p3 p4 show ?thesis by (intro conjI)
qed

lemmas round_defs = round_double_def round_pos_def floor_log2_def round_half_even_def pow2_def
  bitlen.simps

lemma round_half: "round_double (1 / 2) = Finite (1 / 2)"
  by (simp add: round_defs Let_def)

lemma round_50: "round_double 50 = Finite 50"
  by (simp add: round_defs Let_def)

lemma round_100: "round_double 100 = Finite 100"
  by (simp add: round_defs Let_def)

lemma float_of_int_100: "float_of_int 100 = Inr (Finite 100)"
  by (simp add: float_of_int_def round_100)

lemma float_of_int_pos:
  assumes "1 \<le> n" "n < 2 ^ 1023"
  shows "\<exists>v. float_of_int n = Inr (Finite v) \<and> round_double (of_int n) = Finite v \<and> 0 < v"
  using round_double_int [OF assms] by (auto simp: float_of_int_def)

lemma float_of_int_nonneg:
  assumes "0 \<le> n" "n < 2 ^ 1023"
  shows "\<exists>v. float_of_int n = Inr (Finite v)"
proof (cases "n = 0")
  case True
  then show ?thesis by (simp add: float_of_int_def round_double_def)
next
  case False
  with assms have "1 \<le> n" by simp
  from float_of_int_pos [OF this assms(2)] show ?thesis by blast
qed

lemma float_div_returns: "y \<noteq> Finite 0 \<Longrightarrow> \<exists>q. float_div x y = Inr q"
  by (simp add: float_div_def)

lemma cumulative_zero:
  "py_int hits = Inr 0 \<Longrightarrow> cumulative_utilization hits inserts not_cached = Inr (PInt 0)"
  by (simp add: cumulative_utilization_def bindE_simps)

lemma cumulative_positive:
  assumes p: "py_int hits = Inr h" "py_int inserts = Inr i" "py_int not_cached = Inr n"
    and b: "0 < h" "0 \<le> i" "0 \<le> n" "h + i + n < 2 ^ 1023"
  shows "\<exists>x y. round_double (of_int h) = Finite x \<and>
           round_double (of_int (h + i + n)) = Finite y \<and> 0 < y \<and>
           cumulative_utilization hits inserts not_cached
             = Inr (PFloat (float_mul (round_double (x / y)) (Finite 100)))"
proof -
  from b have "1 \<le> h" "h < 2 ^ 1023" by simp_all
  from float_of_int_pos [OF this] obtain x where x: "round_double (of_int h) = Finite x" by blast
  from b have "1 \<le> h + i + n" by simp
  from float_of_int_pos [OF this b(4)] obtain y where
    y: "float_of_int (h + i + n) = Inr (Finite y)" "round_double (of_int (h + i + n)) = Finite y"
      "0 < y" by blast
  have s: "i + n + h = h + i + n" by simp
  from b(1) have hz: "h \<noteq> 0" by simp
  have "cumulative_utilization hits inserts not_cached
      = Inr (PFloat (float_mul (round_double (x / y)) (Finite 100)))"
    using y(3) hz
    by (simp add: cumulative_utilization_def bindE_simps p py_float_of_int_literal [OF p(1)] x
        float_div_int_def s y(1) float_div_def float_mul_int_def float_of_int_100)
  with x y show ?thesis by blast
qed

lemma cumulative_50_30_20:
  "cumulative_utilization ''50'' ''30'' ''20'' = Inr (PFloat (Finite 50))"
proof -
  have p: "py_int ''50'' = Inr 50" "py_int ''30'' = Inr 30" "py_int ''20'' = Inr 20"
    by (simp_all add: py_int_def signed_body_def strip_where_def int_isspace_def digitpart_def
        is_dec_def dec_val_def)
  from cumulative_positive [OF p] obtain x y where
    "round_double (of_int 50) = Finite x" "round_double (of_int (50 + 30 + 20)) = Finite y"
    "cumulative_utilization ''50'' ''30'' ''20''
       = Inr (PFloat (float_mul (round_double (x / y)) (Finite 100)))"
    by auto
  then show ?thesis
    by (simp add: round_50 round_100 round_half float_mul_def)
qed


lemma cumulative_returns:
  assumes p: "py_int hits = Inr h" "py_int inserts = Inr i" "py_int not_cached = Inr n"
    and b: "0 \<le> h" "0 \<le> i" "0 \<le> n" "h + i + n < 2 ^ 1023"
  shows "\<exists>u. cumulative_utilization hits inserts not_cached = Inr u"
proof (cases "h = 0")
  case True
  with cumulative_zero p(1) show ?thesis by blast
next
  case False
  with b(1) have "0 < h" by simp
  from cumulative_positive [OF p this b(2-4)] show ?thesis by blast
qed

lemma instant_returns:
  assumes p: "py_int hits = Inr h" "py_int inserts = Inr i" "py_int not_cached = Inr n"
    and b: "h + i + n < 2 ^ 1023"
    and m: "0 \<le> ph" "ph \<le> h" "0 \<le> pins" "pins \<le> i" "0 \<le> pnc" "pnc \<le> n"
  shows "\<exists>v. instant_utilization ph pins pnc hits inserts not_cached = Inr v"
proof (cases "h - ph = 0")
  case True
  then show ?thesis by (simp add: instant_utilization_def bindE_simps p)
next
  case False
  from m b have "ph < 2 ^ 1023" by simp
  from float_of_int_nonneg [OF m(1) this] obtain a where a: "float_of_int ph = Inr (Finite a)"
    by blast
  define bottom where "bottom = (i - pins) + (n - pnc) + (h - ph)"
  from False m have "1 \<le> bottom" by (simp add: bottom_def)
  moreover from m b have "bottom < 2 ^ 1023" by (simp add: bottom_def)
  ultimately obtain y where y: "float_of_int bottom = Inr (Finite y)" "0 < y"
    using float_of_int_pos by blast
  from y(2) have "Finite y \<noteq> Finite 0" by simp
  from float_div_returns [OF this] obtain q where
    q: "float_div (float_sub (round_double (of_int h)) (Finite a)) (Finite y) = Inr q" by blast
  show ?thesis
    using False
    by (simp add: instant_utilization_def bindE_simps p py_float_of_int_literal [OF p(1)]
        float_sub_int_def a float_div_int_def bottom_def [symmetric] y(1) q float_mul_int_def
        float_of_int_100)
qed

lemma compute_returns:
  assumes k: "Qcache_hits res = Some hits" "Qcache_inserts res = Some inserts"
      "Qcache_not_cached res = Some not_cached"
    and p: "py_int hits = Inr h" "py_int inserts = Inr i" "py_int not_cached = Inr n"
    and b: "0 \<le> h" "0 \<le> i" "0 \<le> n" "h + i + n < 2 ^ 1023"
    and m: "qcache_hits q = None \<or> qcache_inserts q = None \<or> qcache_not_cached q = None \<or>
      (\<exists>ph pins pnc. qcache_hits q = Some ph \<and> qcache_inserts q = Some pins \<and>
         qcache_not_cached q = Some pnc \<and>
         0 \<le> ph \<and> ph \<le> h \<and> 0 \<le> pins \<and> pins \<le> i \<and> 0 \<le> pnc \<and> pnc \<le> n)"
  shows "\<exists>u res1. cumulative_utilization hits inserts not_cached = Inr u \<and>
      compute_synthetic_results q res
        = Inr (res1, \<lparr>qcache_hits = Some h, qcache_inserts = Some i, qcache_not_cached = Some n\<rparr>) \<and>
      Qcache_utilization res1 = Some u"
proof -
  from cumulative_returns [OF p b] obtain u where
    u: "cumulative_utilization hits inserts not_cached = Inr u" by blast
  show ?thesis
  proof (cases "qcache_hits q = None \<or> qcache_inserts q = None \<or> qcache_not_cached q = None")
    case True
    then have "compute_synthetic_results q res
        = Inr (res\<lparr>Qcache_utilization := Some u\<rparr>,
               \<lparr>qcache_hits = Some h, qcache_inserts = Some i, qcache_not_cached = Some n\<rparr>)"
      by (cases "qcache_hits q"; cases "qcache_inserts q"; cases "qcache_not_cached q")
         (simp_all add: compute_synthetic_results_def k u p bindE_simps)
    with u show ?thesis by simp
  next
    case False
    with m obtain ph pins pnc where
      q: "qcache_hits q = Some ph" "qcache_inserts q = Some pins" "qcache_not_cached q = Some pnc"
      and o: "0 \<le> ph" "ph \<le> h" "0 \<le> pins" "pins \<le> i" "0 \<le> pnc" "pnc \<le> n"
      by blast
    from instant_returns [OF p b(4) o] obtain v where
      "instant_utilization ph pins pnc hits inserts not_cached = Inr v" by blast
    then have "compute_synthetic_results q res
        = Inr (res\<lparr>Qcache_utilization := Some u, Qcache_instant_utilization := Some v\<rparr>,
               \<lparr>qcache_hits = Some h, qcache_inserts = Some i, qcache_not_cached = Some n\<rparr>)"
      by (simp add: compute_synthetic_results_def k u p q bindE_simps)
    with u show ?thesis by simp
  qed
qed

text \<open>
  C8. With \<open>int(hits)\<close> equal to 0 the cumulative utilization is the integer 0. With
  counters that are natural numbers, hits positive and the sum below \<open>2 ^ 1023\<close>, it
  is \<open>hits / (hits + inserts + not_cached) * 100\<close> computed in binary64: the two
  integers are rounded to floats, the quotient is rounded, and the product with 100
  is rounded. For 50, 30 and 20 this is exactly 50.0. The function stores this value
  and returns, whenever the counters of the previous pass are absent or are natural
  numbers not above the present ones.
\<close>

theorem cumulative_utilization_formula:
  "(py_int zs = Inr 0 \<longrightarrow> cumulative_utilization zs inserts not_cached = Inr (PInt 0)) \<and>
   (py_int hs = Inr h \<and> py_int ins = Inr i \<and> py_int ncs = Inr n \<and>
    0 < h \<and> 0 \<le> i \<and> 0 \<le> n \<and> h + i + n < 2 ^ 1023 \<longrightarrow>
      (\<exists>x y. round_double (of_int h) = Finite x \<and>
         round_double (of_int (h + i + n)) = Finite y \<and> 0 < y \<and>
         cumulative_utilization hs ins ncs
           = Inr (PFloat (float_mul (round_double (x / y)) (Finite 100))))) \<and>
   cumulative_utilization ''50'' ''30'' ''20'' = Inr (PFloat (Finite 50)) \<and>
   (Qcache_hits res = Some as \<and> Qcache_inserts res = Some bs \<and> Qcache_not_cached res = Some ds \<and>
    py_int as = Inr a \<and> py_int bs = Inr b \<and> py_int ds = Inr d \<and>
    0 \<le> a \<and> 0 \<le> b \<and> 0 \<le> d \<and> a + b + d < 2 ^ 1023 \<and>
    (qcache_hits q = None \<or> qcache_inserts q = None \<or> qcache_not_cached q = None \<or>
      (\<exists>ph pins pnc. qcache_hits q = Some ph \<and> qcache_inserts q = Some pins \<and>
         qcache_not_cached q = Some pnc \<and>
         0 \<le> ph \<and> ph \<le> a \<and> 0 \<le> pins \<and> pins \<le> b \<and> 0 \<le> pnc \<and> pnc \<le> d)) \<longrightarrow>
      (\<exists>u res1. cumulative_utilization as bs ds = Inr u \<and>
         compute_synthetic_results q res
           = Inr (res1, \<lparr>qcache_hits = Some a, qcache_inserts = Some b,
                          qcache_not_cached = Some d\<rparr>) \<and>
         Qcache_utilization res1 = Some u))"
proof -
  have p1: "py_int zs = Inr 0 \<longrightarrow> cumulative_utilization zs inserts not_cached = Inr (PInt 0)"
    using cumulative_zero by blast
  have p2: "py_int hs = Inr h \<and> py_int ins = Inr i \<and> py_int ncs = Inr n \<and>
    0 < h \<and> 0 \<le> i \<and> 0 \<le> n \<and> h + i + n < 2 ^ 1023 \<longrightarrow>
      (\<exists>x y. round_double (of_int h) = Finite x \<and>
         round_double (of_int (h + i + n)) = Finite y \<and> 0 < y \<and>
         cumulative_utilization hs ins ncs
           = Inr (PFloat (float_mul (round_double (x / y)) (Finite 100))))"
    using cumulative_positive by blast
  have p4: "Qcache_hits res = Some as \<and> Qcache_inserts res = Some bs \<and> Qcache_not_cached res = Some ds \<and>
    py_int as = Inr a \<and> py_int bs = Inr b \<and> py_int ds = Inr d \<and>
    0 \<le> a \<and> 0 \<le> b \<and> 0 \<le> d \<and> a + b + d < 2 ^ 1023 \<and>
    (qcache_hits q = None \<or> qcache_inserts q = None \<or> qcache_not_cached q = None \<or>
      (\<exists>ph pins pnc. qcache_hits q = Some ph \<and> qcache_inserts q = Some pins \<and>
         qcache_not_cached q = Some pnc \<and>
         0 \<le> ph \<and> ph \<le> a \<and> 0 \<le> pins \<and> pins \<le> b \<and> 0 \<le> pnc \<and> pnc \<le> d)) \<longrightarrow>
      (\<exists>u res1. cumulative_utilization as bs ds = Inr u \<and>
         compute_synthetic_results q res
           = Inr (res1, \<lparr>qcache_hits = Some a, qcache_inserts = Some b,
                          qcache_not_cached = Some d\<rparr>) \<and>
         Qcache_utilization res1 = Some u)"
  proof
    assume h: "Qcache_hits res = Some as \<and> Qcache_inserts res = Some bs \<and> Qcache_not_cached res = Some ds \<and>
      py_int as = Inr a \<and> py_int bs = Inr b \<and> py_int ds = Inr d \<and>
      0 \<le> a \<and> 0 \<le> b \<and> 0 \<le> d \<and> a + b + d < 2 ^ 1023 \<and>
      (qcache_hits q = None \<or> qcache_inserts q = None \<or> qcache_not_cached q = None \<or>
        (\<exists>ph pins pnc. qcache_hits q = Some ph \<and> qcache_inserts q = Some pins \<and>
           qcache_not_cached q = Some pnc \<and>
           0 \<le> ph \<and> ph \<le> a \<and> 0 \<le> pins \<and> pins \<le> b \<and> 0 \<le> pnc \<and> pnc \<le> d))"
    show "\<exists>u res1. cumulative_utilization as bs ds = Inr u \<and>
         compute_synthetic_results q res
           = Inr (res1, \<lparr>qcache_hits = Some a, qcache_inserts = Some b,
                          qcache_not_cached = Some d\<rparr>) \<and>
         Qcache_utilization res1 = Some u"
      by (rule compute_returns [of res "as" bs ds a b d q]) (use h in blast)+
  qed
  from p1 p2 cumulative_50_30_20 p4 show ?thesis by (intro conjI)
qed


lemma counters_parse:
  "py_int ''0'' = Inr 0" "py_int ''50'' = Inr 50" "py_int ''30'' = Inr 30" "py_int ''20'' = Inr 20"
  by (simp_all add: py_int_def signed_body_def strip_where_def int_isspace_def digitpart_def
      is_dec_def dec_val_def)

theorem cumulative_utilization_formula_witness:
  "cumulative_utilization ''0'' ''30'' ''20'' = Inr (PInt 0) \<and>
   cumulative_utilization ''50'' ''30'' ''20'' = Inr (PFloat (Finite 50)) \<and>
   (\<exists>res1. compute_synthetic_results
       \<lparr>qcache_hits = None, qcache_inserts = None, qcache_not_cached = None\<rparr>
       \<lparr>Qcache_hits = Some ''50'', Qcache_inserts = Some ''30'', Qcache_not_cached = Some ''20'',
        Qcache_utilization = None, Qcache_instant_utilization = None\<rparr>
     = Inr (res1, \<lparr>qcache_hits = Some 50, qcache_inserts = Some 30, qcache_not_cached = Some 20\<rparr>) \<and>
     Qcache_utilization res1 = Some (PFloat (Finite 50)))"
  using cumulative_utilization_formula [of "''0''" "''30''" "''20''" "''50''" 50 "''30''" 30
      "''20''" 20
      "\<lparr>Qcache_hits = Some ''50'', Qcache_inserts = Some ''30'', Qcache_not_cached = Some ''20'',
        Qcache_utilization = None, Qcache_instant_utilization = None\<rparr>"
      "''50''" "''30''" "''20''" 50 30 20
      "\<lparr>qcache_hits = None, qcache_inserts = None, qcache_not_cached = None\<rparr>"]
  by (auto simp: counters_parse)

lemma first_sample:
  "sample Map.empty \<lparr>host = ''db'', port = 3306, mysql_sock = [], defaults_file = []\<rparr>
     \<lparr>Qcache_hits = Some ''50'', Qcache_inserts = Some ''30'', Qcache_not_cached = Some ''20'',
      Qcache_utilization = None, Qcache_instant_utilization = None\<rparr>
   = Inr (\<lparr>Qcache_hits = Some ''50'', Qcache_inserts = Some ''30'', Qcache_not_cached = Some ''20'',
           Qcache_utilization = Some (PFloat (Finite 50)), Qcache_instant_utilization = None\<rparr>,
          put_qcache_stats Map.empty
            \<lparr>host = ''db'', port = 3306, mysql_sock = [], defaults_file = []\<rparr>
            \<lparr>qcache_hits = Some 50, qcache_inserts = Some 30, qcache_not_cached = Some 20\<rparr>)"
  by (simp add: sample_def set_qcache_stats_def compute_synthetic_results_def
      cumulative_50_30_20 counters_parse bindE_simps)

theorem instant_utilization_needs_prior_witness:
  "(\<exists>res1 store1.
      sample Map.empty \<lparr>host = ''db'', port = 3306, mysql_sock = [], defaults_file = []\<rparr>
        \<lparr>Qcache_hits = Some ''50'', Qcache_inserts = Some ''30'', Qcache_not_cached = Some ''20'',
         Qcache_utilization = None, Qcache_instant_utilization = None\<rparr> = Inr (res1, store1) \<and>
      Qcache_instant_utilization res1 = None \<and>
      (\<exists>res2 store2.
         sample store1 \<lparr>host = ''db'', port = 3306, mysql_sock = [], defaults_file = []\<rparr>
           \<lparr>Qcache_hits = Some ''50'', Qcache_inserts = Some ''30'', Qcache_not_cached = Some ''20'',
            Qcache_utilization = None, Qcache_instant_utilization = None\<rparr> = Inr (res2, store2) \<and>
         Qcache_instant_utilization res2 = Some (PInt 0))) \<and>
   instant_utilization 50 30 20 ''50'' ''30'' ''20'' = Inr (PInt 0)"
  using instant_utilization_needs_prior [of Map.empty
      "\<lparr>host = ''db'', port = 3306, mysql_sock = [], defaults_file = []\<rparr>"
      "\<lparr>Qcache_hits = Some ''50'', Qcache_inserts = Some ''30'', Qcache_not_cached = Some ''20'',
        Qcache_utilization = None, Qcache_instant_utilization = None\<rparr>"
      "\<lparr>Qcache_hits = Some ''50'', Qcache_inserts = Some ''30'', Qcache_not_cached = Some ''20'',
        Qcache_utilization = Some (PFloat (Finite 50)), Qcache_instant_utilization = None\<rparr>"
      "put_qcache_stats Map.empty
            \<lparr>host = ''db'', port = 3306, mysql_sock = [], defaults_file = []\<rparr>
            \<lparr>qcache_hits = Some 50, qcache_inserts = Some 30, qcache_not_cached = Some 20\<rparr>"
      "\<lparr>qcache_hits = Some 50, qcache_inserts = Some 30, qcache_not_cached = Some 20\<rparr>"
      "\<lparr>Qcache_hits = Some ''50'', Qcache_inserts = Some ''30'', Qcache_not_cached = Some ''20'',
        Qcache_utilization = None, Qcache_instant_utilization = None\<rparr>"
      "\<lparr>Qcache_hits = Some ''50'', Qcache_inserts = Some ''30'', Qcache_not_cached = Some ''20'',
        Qcache_utilization = Some (PFloat (Finite 50)),
        Qcache_instant_utilization = Some (PInt 0)\<rparr>"
      "\<lparr>qcache_hits = Some 50, qcache_inserts = Some 30, qcache_not_cached = Some 20\<rparr>"
      "''50''" 50 30 20 "''30''" "''20''"
      Map.empty
      "\<lparr>host = ''db'', port = 3306, mysql_sock = [], defaults_file = []\<rparr>"
      "\<lparr>Qcache_hits = Some ''50'', Qcache_inserts = Some ''30'', Qcache_not_cached = Some ''20'',
        Qcache_utilization = None, Qcache_instant_utilization = None\<rparr>"
      "\<lparr>Qcache_hits = Some ''50'', Qcache_inserts = Some ''30'', Qcache_not_cached = Some ''20'',
        Qcache_utilization = Some (PFloat (Finite 50)), Qcache_instant_utilization = None\<rparr>"
      "put_qcache_stats Map.empty
            \<lparr>host = ''db'', port = 3306, mysql_sock = [], defaults_file = []\<rparr>
            \<lparr>qcache_hits = Some 50, qcache_inserts = Some 30, qcache_not_cached = Some 20\<rparr>"]
    first_sample
  by (simp add: counters_parse
      compute_same_again [OF cumulative_50_30_20 counters_parse(2) counters_parse(3)
        counters_parse(4)])

end
